theory Spec2Isabelle
  imports Complex_Main "HOL-Library.Word"
begin

unbundle bit_operations_syntax

section \<open>Numbers, points, rectangles and transforms\<close>

text \<open>
  The ROI code of \<^verbatim>\<open>graphicsItems/ROI.py\<close> computes with Python floats inside Qt
  geometry classes. Floats are idealised as real numbers here: every comparison and every
  arithmetic operation of the source is kept, only rounding error, infinities and NaN are
  absent. Exceptions of the source are values of the type \<open>error\<close>.
\<close>

datatype error =
    ZeroDivisionError
  | TypeError
  | IndexError
  | KeyError
  | UnboundLocalError
  | Exception string

text \<open>Python 2 \<^verbatim>\<open>round(x)\<close>: the nearest integer as a float, halves away from zero.\<close>

definition py_round :: "real \<Rightarrow> real" where
  "py_round v = (if 0 \<le> v then of_int \<lfloor>v + 1/2\<rfloor> else of_int \<lceil>v - 1/2\<rceil>)"

text \<open>Python \<^verbatim>\<open>int(x)\<close> on a float: truncation towards zero.\<close>

definition py_int :: "real \<Rightarrow> int" where
  "py_int v = (if 0 \<le> v then \<lfloor>v\<rfloor> else \<lceil>v\<rceil>)"

text \<open>Float division \<^verbatim>\<open>a / b\<close>, which raises on a zero divisor.\<close>

definition py_div :: "real \<Rightarrow> real \<Rightarrow> error + real" where
  "py_div a b = (if b = 0 then Inl ZeroDivisionError else Inr (a / b))"

subsection \<open>pyqtgraph.Point\<close>

text \<open>
  Modelled from the spec: \<^verbatim>\<open>pyqtgraph.Point\<close> (Point.py is not among the source files
  and the spec does not describe it). The operations below are the ones ROI.py uses, with
  the meaning their use there requires: a \<^verbatim>\<open>QPointF\<close> with two float coordinates,
  indexed by 0 and 1, with componentwise \<^verbatim>\<open>+ - * /\<close>, and the vector helpers
  \<^verbatim>\<open>length\<close>, \<^verbatim>\<open>dot\<close>, \<^verbatim>\<open>cross\<close>, \<^verbatim>\<open>proj\<close> and \<^verbatim>\<open>angle\<close> (degrees,
  \<^verbatim>\<open>None\<close> when either vector has length zero).
\<close>

datatype Point = Point (px: real) (py: real)

text \<open>\<^verbatim>\<open>tuple(p)\<close> and \<^verbatim>\<open>Point(t)\<close> for a pair.\<close>

definition tuple :: "Point \<Rightarrow> real \<times> real" where
  "tuple p = (px p, py p)"

definition Point_of_tuple :: "real \<times> real \<Rightarrow> Point" where
  "Point_of_tuple t = Point (fst t) (snd t)"

definition Point_add :: "Point \<Rightarrow> Point \<Rightarrow> Point" where
  "Point_add a b = Point (px a + px b) (py a + py b)"

definition Point_sub :: "Point \<Rightarrow> Point \<Rightarrow> Point" where
  "Point_sub a b = Point (px a - px b) (py a - py b)"

definition Point_mul :: "Point \<Rightarrow> Point \<Rightarrow> Point" where
  "Point_mul a b = Point (px a * px b) (py a * py b)"

definition Point_div :: "Point \<Rightarrow> Point \<Rightarrow> error + Point" where
  "Point_div a b =
     (if px b = 0 \<or> py b = 0 then Inl ZeroDivisionError
      else Inr (Point (px a / px b) (py a / py b)))"

definition Point_length :: "Point \<Rightarrow> real" where
  "Point_length a = sqrt ((px a)\<^sup>2 + (py a)\<^sup>2)"

definition Point_dot :: "Point \<Rightarrow> Point \<Rightarrow> real" where
  "Point_dot a b = px a * px b + py a * py b"

definition Point_cross :: "Point \<Rightarrow> Point \<Rightarrow> real" where
  "Point_cross a b = px a * py b - py a * px b"

definition Point_proj :: "Point \<Rightarrow> Point \<Rightarrow> error + Point" where
  "Point_proj a b =
     (let n = Point_length b in
      if n = 0 then Inl ZeroDivisionError
      else let b1 = Point (px b / n) (py b / n); d = Point_dot a b1
           in Inr (Point (d * px b1) (d * py b1)))"

definition clip :: "real \<Rightarrow> real \<Rightarrow> real \<Rightarrow> real" where
  "clip v lo hi = min hi (max lo v)"

definition Point_angle :: "Point \<Rightarrow> Point \<Rightarrow> real option" where
  "Point_angle a b =
     (let n1 = Point_length a; n2 = Point_length b in
      if n1 = 0 \<or> n2 = 0 then None
      else let ang = arccos (clip (Point_dot a b / (n1 * n2)) (-1) 1);
               ang' = (if Point_cross a b > 0 then ang * (-1) else ang)
           in Some (ang' * 180 / pi))"

subsection \<open>QRectF\<close>

text \<open>
  Qt's rectangle is a corner with a width and a height, either of which may be negative;
  \<^verbatim>\<open>right()\<close> and \<^verbatim>\<open>bottom()\<close> are computed from them. \<^verbatim>\<open>contains\<close> and
  \<^verbatim>\<open>intersect\<close> normalise both rectangles first and treat a rectangle of zero width or
  height as empty.
\<close>

record QRectF =
  rx :: real
  ry :: real
  rw :: real
  rh :: real

definition mkRect :: "real \<Rightarrow> real \<Rightarrow> real \<Rightarrow> real \<Rightarrow> QRectF" where
  "mkRect a b c d = \<lparr>rx = a, ry = b, rw = c, rh = d\<rparr>"

definition rect_left :: "QRectF \<Rightarrow> real" where
  "rect_left r = rx r"

definition rect_right :: "QRectF \<Rightarrow> real" where
  "rect_right r = rx r + rw r"

definition rect_top :: "QRectF \<Rightarrow> real" where
  "rect_top r = ry r"

definition rect_bottom :: "QRectF \<Rightarrow> real" where
  "rect_bottom r = ry r + rh r"

definition adjusted :: "QRectF \<Rightarrow> real \<Rightarrow> real \<Rightarrow> real \<Rightarrow> real \<Rightarrow> QRectF" where
  "adjusted r x1 y1 x2 y2 = mkRect (rx r + x1) (ry r + y1) (rw r + x2 - x1) (rh r + y2 - y1)"

definition normalized :: "QRectF \<Rightarrow> QRectF" where
  "normalized r =
     mkRect (if rw r < 0 then rx r + rw r else rx r)
            (if rh r < 0 then ry r + rh r else ry r)
            (if rw r < 0 then - rw r else rw r)
            (if rh r < 0 then - rh r else rh r)"

definition lo_x :: "QRectF \<Rightarrow> real" where
  "lo_x r = (if rw r < 0 then rx r + rw r else rx r)"

definition hi_x :: "QRectF \<Rightarrow> real" where
  "hi_x r = (if rw r < 0 then rx r else rx r + rw r)"

definition lo_y :: "QRectF \<Rightarrow> real" where
  "lo_y r = (if rh r < 0 then ry r + rh r else ry r)"

definition hi_y :: "QRectF \<Rightarrow> real" where
  "hi_y r = (if rh r < 0 then ry r else ry r + rh r)"

definition rect_contains :: "QRectF \<Rightarrow> QRectF \<Rightarrow> bool" where
  "rect_contains a b =
     (if lo_x a = hi_x a then False
      else if lo_x b = hi_x b then False
      else if lo_x b < lo_x a \<or> hi_x b > hi_x a then False
      else if lo_y a = hi_y a then False
      else if lo_y b = hi_y b then False
      else if lo_y b < lo_y a \<or> hi_y b > hi_y a then False
      else True)"

definition rect_intersect :: "QRectF \<Rightarrow> QRectF \<Rightarrow> QRectF" where
  "rect_intersect a b =
     (if lo_x a = hi_x a then mkRect 0 0 0 0
      else if lo_x b = hi_x b then mkRect 0 0 0 0
      else if lo_x a \<ge> hi_x b \<or> lo_x b \<ge> hi_x a then mkRect 0 0 0 0
      else if lo_y a = hi_y a then mkRect 0 0 0 0
      else if lo_y b = hi_y b then mkRect 0 0 0 0
      else if lo_y a \<ge> hi_y b \<or> lo_y b \<ge> hi_y a then mkRect 0 0 0 0
      else mkRect (max (lo_x a) (lo_x b)) (max (lo_y a) (lo_y b))
                  (min (hi_x a) (hi_x b) - max (lo_x a) (lo_x b))
                  (min (hi_y a) (hi_y b) - max (lo_y a) (lo_y b)))"

subsection \<open>QTransform\<close>

text \<open>
  An affine \<^verbatim>\<open>QTransform\<close>: the point \<open>(x, y)\<close> is mapped to
  \<open>(m11 x + m21 y + tdx, m12 x + m22 y + tdy)\<close>. \<^verbatim>\<open>rotate\<close> takes degrees and uses exact
  sines and cosines at the quarter turns. \<^verbatim>\<open>mapRect\<close> leaves the rectangle as it is
  (but for the translation) under the identity, flips negative extents under a scaling, and
  returns the bounding rectangle of the four mapped corners otherwise.
\<close>

record QTransform =
  m11 :: real
  m12 :: real
  m21 :: real
  m22 :: real
  tdx :: real
  tdy :: real

definition identityT :: QTransform where
  "identityT = \<lparr>m11 = 1, m12 = 0, m21 = 0, m22 = 1, tdx = 0, tdy = 0\<rparr>"

definition sina :: "real \<Rightarrow> real" where
  "sina a = (if a = 90 \<or> a = -270 then 1
             else if a = 270 \<or> a = -90 then -1
             else if a = 180 then 0
             else sin (a * pi / 180))"

definition cosa :: "real \<Rightarrow> real" where
  "cosa a = (if a = 90 \<or> a = -270 then 0
             else if a = 270 \<or> a = -90 then 0
             else if a = 180 then -1
             else cos (a * pi / 180))"

text \<open>\<^verbatim>\<open>tr = QTransform(); tr.rotate(a)\<close>\<close>

definition rotation :: "real \<Rightarrow> QTransform" where
  "rotation a =
     (if a = 0 then identityT
      else \<lparr>m11 = cosa a, m12 = sina a, m21 = - sina a, m22 = cosa a, tdx = 0, tdy = 0\<rparr>)"

definition scaleT :: "QTransform \<Rightarrow> real \<Rightarrow> real \<Rightarrow> QTransform" where
  "scaleT t sx sy =
     t\<lparr>m11 := m11 t * sx, m12 := m12 t * sx, m21 := m21 t * sy, m22 := m22 t * sy\<rparr>"

definition mapPoint :: "QTransform \<Rightarrow> Point \<Rightarrow> Point" where
  "mapPoint t p =
     Point (m11 t * px p + m21 t * py p + tdx t) (m12 t * px p + m22 t * py p + tdy t)"

definition inverted :: "QTransform \<Rightarrow> QTransform" where
  "inverted t =
     (let det = m11 t * m22 t - m12 t * m21 t in
      if det = 0 then identityT
      else \<lparr>m11 = m22 t / det, m12 = - m12 t / det,
            m21 = - m21 t / det, m22 = m11 t / det,
            tdx = (m21 t * tdy t - m22 t * tdx t) / det,
            tdy = (m12 t * tdx t - m11 t * tdy t) / det\<rparr>)"

definition min4 :: "real \<Rightarrow> real \<Rightarrow> real \<Rightarrow> real \<Rightarrow> real" where
  "min4 a b c d = min (min a b) (min c d)"

definition max4 :: "real \<Rightarrow> real \<Rightarrow> real \<Rightarrow> real \<Rightarrow> real" where
  "max4 a b c d = max (max a b) (max c d)"

definition mapRect :: "QTransform \<Rightarrow> QRectF \<Rightarrow> QRectF" where
  "mapRect t r =
     (if m12 t = 0 \<and> m21 t = 0 then
        (if m11 t = 1 \<and> m22 t = 1 then mkRect (rx r + tdx t) (ry r + tdy t) (rw r) (rh r)
         else let x0 = m11 t * rx r + tdx t; y0 = m22 t * ry r + tdy t;
                  w0 = m11 t * rw r; h0 = m22 t * rh r
              in mkRect (if w0 < 0 then x0 + w0 else x0) (if h0 < 0 then y0 + h0 else y0)
                        (if w0 < 0 then - w0 else w0) (if h0 < 0 then - h0 else h0))
      else let a = mapPoint t (Point (rect_left r) (rect_top r));
               b = mapPoint t (Point (rect_right r) (rect_top r));
               c = mapPoint t (Point (rect_right r) (rect_bottom r));
               d = mapPoint t (Point (rect_left r) (rect_bottom r));
               xmin = min4 (px a) (px b) (px c) (px d);
               ymin = min4 (py a) (py b) (py c) (py d);
               xmax = max4 (px a) (px b) (px c) (px d);
               ymax = max4 (py a) (py b) (py c) (py d)
           in mkRect xmin ymin (xmax - xmin) (ymax - ymin))"

section \<open>The ROI\<close>

text \<open>
  \<^verbatim>\<open>self.state\<close> is a dict with the keys \<^verbatim>\<open>'pos'\<close>, \<^verbatim>\<open>'size'\<close> and \<^verbatim>\<open>'angle'\<close>
  (degrees). \<^verbatim>\<open>setPos\<close> and \<^verbatim>\<open>setAngle\<close> write the same values to the graphics item's
  position and transform, so the item's coordinate mappings are functions of the state.
\<close>

record state =
  pos :: Point
  size' :: Point
  angle :: real

text \<open>
  A state dict as \<^verbatim>\<open>setState\<close> accepts it: \<^verbatim>\<open>Point(...)\<close> is applied to its
  \<^verbatim>\<open>'pos'\<close> and \<^verbatim>\<open>'size'\<close>, which may be points or tuples. \<^verbatim>\<open>saveState\<close> returns
  one with tuples.
\<close>

datatype point_arg = ArgPoint Point | ArgTuple "real \<times> real"

fun mkPoint :: "point_arg \<Rightarrow> Point" where
  "mkPoint (ArgPoint p) = Point (px p) (py p)"
| "mkPoint (ArgTuple t) = Point_of_tuple t"

record state_dict =
  d_pos :: point_arg
  d_size :: point_arg
  d_angle :: real

datatype handle_type = Ht | Hf | Hs | Hr | Hrf | Hsr

text \<open>
  An entry of \<^verbatim>\<open>self.handles\<close>. \<^verbatim>\<open>'center'\<close> and \<^verbatim>\<open>'lockAspect'\<close> are keys that only
  some kinds of handle have. \<open>itemPos\<close> is the position of the handle's graphics item in
  the ROI's coordinates and \<open>isChild\<close> says that the item is among the ROI's child items.
\<close>

record handle_info =
  htype :: handle_type
  hpos :: Point
  center :: "Point option"
  lockAspect :: "bool option"
  itemPos :: Point
  isChild :: bool

datatype signal = sigRegionChanged | sigRegionChangeFinished

record ROI =
  state :: state
  lastState :: "state option"
  handles :: "handle_info list"
  invertible :: bool
  maxBounds :: "QRectF option"
  snapSize :: "real option"
  translateSnap :: bool
  rotateSnap :: bool
  scaleSnap :: bool
  aspectLocked :: bool
  rotateAllowed :: bool
  freeHandleMoved :: bool
  emitted :: "signal list"

text \<open>The \<^verbatim>\<open>snap\<close> argument: \<^verbatim>\<open>None\<close>, \<^verbatim>\<open>True\<close>/\<^verbatim>\<open>False\<close>, or a grid \<^verbatim>\<open>Point(w, h)\<close>.\<close>

datatype snap = SnapNone | SnapBool bool | SnapGrid Point

definition stateCopy :: "ROI \<Rightarrow> state" where
  "stateCopy roi =
     \<lparr>pos = Point (px (pos (state roi))) (py (pos (state roi))),
      size' = Point (px (size' (state roi))) (py (size' (state roi))),
      angle = angle (state roi)\<rparr>"

definition getState :: "ROI \<Rightarrow> state" where
  "getState roi = stateCopy roi"

definition saveState :: "ROI \<Rightarrow> state_dict" where
  "saveState roi =
     \<lparr>d_pos = ArgTuple (tuple (pos (state roi))),
      d_size = ArgTuple (tuple (size' (state roi))),
      d_angle = angle (state roi)\<rparr>"

definition stateChangeFinished :: "ROI \<Rightarrow> ROI" where
  "stateChangeFinished roi = roi\<lparr>emitted := emitted roi @ [sigRegionChangeFinished]\<rparr>"

definition moveHandleItem :: "Point \<Rightarrow> handle_info \<Rightarrow> handle_info" where
  "moveHandleItem sz h = (if isChild h then h\<lparr>itemPos := Point_mul (hpos h) sz\<rparr> else h)"

definition stateChanged :: "ROI \<Rightarrow> bool \<Rightarrow> ROI" where
  "stateChanged roi finish =
     (let changed = (case lastState roi of None \<Rightarrow> True | Some l \<Rightarrow> state roi \<noteq> l);
          roi1 = (if changed
                  then roi\<lparr>handles := map (moveHandleItem (size' (state roi))) (handles roi),
                           emitted := emitted roi @ [sigRegionChanged]\<rparr>
                  else if freeHandleMoved roi
                  then roi\<lparr>emitted := emitted roi @ [sigRegionChanged]\<rparr>
                  else roi);
          roi2 = roi1\<lparr>freeHandleMoved := False, lastState := Some (stateCopy roi1)\<rparr>
      in if finish then stateChangeFinished roi2 else roi2)"

definition setPos :: "ROI \<Rightarrow> Point \<Rightarrow> bool \<Rightarrow> bool \<Rightarrow> ROI" where
  "setPos roi p update finish =
     (let roi1 = roi\<lparr>state := (state roi)\<lparr>pos := p\<rparr>\<rparr>
      in if update then stateChanged roi1 finish else roi1)"

definition setSize :: "ROI \<Rightarrow> Point \<Rightarrow> bool \<Rightarrow> bool \<Rightarrow> ROI" where
  "setSize roi s update finish =
     (let roi1 = roi\<lparr>state := (state roi)\<lparr>size' := s\<rparr>\<rparr>
      in if update then stateChanged roi1 finish else roi1)"

definition setAngle :: "ROI \<Rightarrow> real \<Rightarrow> bool \<Rightarrow> bool \<Rightarrow> ROI" where
  "setAngle roi a update finish =
     (let roi1 = roi\<lparr>state := (state roi)\<lparr>angle := a\<rparr>\<rparr>
      in if update then stateChanged roi1 finish else roi1)"

definition setState :: "ROI \<Rightarrow> state_dict \<Rightarrow> bool \<Rightarrow> ROI" where
  "setState roi st update =
     (let roi1 = setPos roi (mkPoint (d_pos st)) False True;
          roi2 = setSize roi1 (mkPoint (d_size st)) False True
      in setAngle roi2 (d_angle st) update True)"

definition stateRect :: "state \<Rightarrow> QRectF" where
  "stateRect st =
     (let r = mkRect 0 0 (px (size' st)) (py (size' st));
          tr = rotation (- angle st);
          r' = mapRect tr r
      in adjusted r' (px (pos st)) (py (pos st)) (px (pos st)) (py (pos st)))"

definition getSnapPosition :: "ROI \<Rightarrow> Point \<Rightarrow> snap \<Rightarrow> error + Point" where
  "getSnapPosition roi p sn =
     (case (if sn = SnapNone \<or> sn = SnapBool True
            then (case snapSize roi of None \<Rightarrow> None | Some s \<Rightarrow> Some (SnapGrid (Point s s)))
            else Some sn) of
        None \<Rightarrow> Inr p
      | Some (SnapGrid g) \<Rightarrow>
          (case py_div (px p) (px g) of
             Inl e \<Rightarrow> Inl e
           | Inr qx \<Rightarrow>
               (case py_div (py p) (py g) of
                  Inl e \<Rightarrow> Inl e
                | Inr qy \<Rightarrow> Inr (Point (py_round qx * px g) (py_round qy * py g))))
      | Some _ \<Rightarrow> Inl TypeError)"

text \<open>
  \<^verbatim>\<open>ROI.__init__\<close>: the state starts as \<^verbatim>\<open>{'pos': (0,0), 'size': (1,1), 'angle': 0}\<close>
  and is then set through \<^verbatim>\<open>setPos\<close>, \<^verbatim>\<open>setAngle\<close> and \<^verbatim>\<open>setSize\<close>.
\<close>

definition ROI_init ::
  "Point \<Rightarrow> Point \<Rightarrow> real \<Rightarrow> bool \<Rightarrow> QRectF option \<Rightarrow> real option \<Rightarrow> bool \<Rightarrow> bool \<Rightarrow> bool \<Rightarrow> ROI" where
  "ROI_init p s a invert mb snp scSnap trSnap roSnap =
     (let roi0 = \<lparr>state = \<lparr>pos = Point 0 0, size' = Point 1 1, angle = 0\<rparr>,
                  lastState = None, handles = [], invertible = invert, maxBounds = mb,
                  snapSize = snp, translateSnap = trSnap, rotateSnap = roSnap,
                  scaleSnap = scSnap, aspectLocked = False, rotateAllowed = True,
                  freeHandleMoved = False, emitted = []\<rparr>;
          roi1 = setPos roi0 p True True;
          roi2 = setAngle roi1 a True True
      in setSize roi2 s True True)"

text \<open>
  \<^verbatim>\<open>addHandle\<close> for a handle without an item of its own: a new handle item is created as
  a child of the ROI at \<^verbatim>\<open>info['pos'] * self.state['size']\<close>.
\<close>

definition addHandle :: "ROI \<Rightarrow> handle_type \<Rightarrow> Point \<Rightarrow> Point option \<Rightarrow> bool option \<Rightarrow> ROI" where
  "addHandle roi ty p c l =
     roi\<lparr>handles := handles roi @
            [\<lparr>htype = ty, hpos = p, center = c, lockAspect = l,
              itemPos = Point_mul p (size' (state roi)), isChild = True\<rparr>]\<rparr>"

definition addTranslateHandle :: "ROI \<Rightarrow> Point \<Rightarrow> ROI" where
  "addTranslateHandle roi p = addHandle roi Ht p None None"

definition addFreeHandle :: "ROI \<Rightarrow> Point \<Rightarrow> ROI" where
  "addFreeHandle roi p = addHandle roi Hf p None None"

definition addScaleHandle :: "ROI \<Rightarrow> Point \<Rightarrow> Point \<Rightarrow> bool \<Rightarrow> ROI" where
  "addScaleHandle roi p c l = addHandle roi Hs p (Some c) (Some l)"

definition addRotateHandle :: "ROI \<Rightarrow> Point \<Rightarrow> Point \<Rightarrow> ROI" where
  "addRotateHandle roi p c = addHandle roi Hr p (Some c) None"

definition addScaleRotateHandle :: "ROI \<Rightarrow> Point \<Rightarrow> Point \<Rightarrow> error + ROI" where
  "addScaleRotateHandle roi p c =
     (if px p \<noteq> px c \<and> py p \<noteq> py c
      then Inl (Exception ''Scale/rotate handles must have either the same x or y coordinate as their center point.'')
      else Inr (addHandle roi Hsr p (Some c) None))"

definition addRotateFreeHandle :: "ROI \<Rightarrow> Point \<Rightarrow> Point \<Rightarrow> ROI" where
  "addRotateFreeHandle roi p c = addHandle roi Hrf p (Some c) None"

subsection \<open>Coordinate mappings\<close>

text \<open>
  The ROI is taken as a top-level item of the scene, so that scene coordinates are the
  parent's coordinates. Its position and transform mirror \<open>pos\<close> and \<open>angle\<close> of the
  state (see \<^verbatim>\<open>setPos\<close> and \<^verbatim>\<open>setAngle\<close>).
\<close>

definition mapToParent :: "ROI \<Rightarrow> Point \<Rightarrow> Point" where
  "mapToParent roi p = Point_add (mapPoint (rotation (angle (state roi))) p) (pos (state roi))"

definition mapFromParent :: "ROI \<Rightarrow> Point \<Rightarrow> Point" where
  "mapFromParent roi p =
     mapPoint (inverted (rotation (angle (state roi)))) (Point_sub p (pos (state roi)))"

definition mapToScene :: "ROI \<Rightarrow> Point \<Rightarrow> Point" where
  "mapToScene roi p = mapToParent roi p"

definition mapFromScene :: "ROI \<Rightarrow> Point \<Rightarrow> Point" where
  "mapFromScene roi p = mapFromParent roi p"

definition mapSceneToParent :: "ROI \<Rightarrow> Point \<Rightarrow> Point" where
  "mapSceneToParent roi pt = mapToParent roi (mapFromScene roi pt)"

subsection \<open>Keyboard modifiers\<close>

definition ControlModifier :: "32 word" where
  "ControlModifier = 0x04000000"

definition AltModifier :: "32 word" where
  "AltModifier = 0x08000000"

definition held :: "32 word \<Rightarrow> 32 word \<Rightarrow> bool" where
  "held modifiers m = (modifiers AND m \<noteq> 0)"

subsection \<open>translate\<close>

text \<open>The correction \<open>d\<close> that \<^verbatim>\<open>translate\<close> adds to the position of a bounded ROI.\<close>

definition boundsShift :: "QRectF \<Rightarrow> QRectF \<Rightarrow> Point" where
  "boundsShift mb r =
     Point (if rect_left mb > rect_left r then rect_left mb - rect_left r
            else if rect_right mb < rect_right r then rect_right mb - rect_right r
            else 0)
           (if rect_top mb > rect_top r then rect_top mb - rect_top r
            else if rect_bottom mb < rect_bottom r then rect_bottom mb - rect_bottom r
            else 0)"

text \<open>The position requested by a \<^verbatim>\<open>translate\<close>, after snapping and before clamping.\<close>

definition snappedPos :: "ROI \<Rightarrow> Point \<Rightarrow> snap \<Rightarrow> error + Point" where
  "snappedPos roi pt sn =
     (let newState = stateCopy roi;
          p = Point_add (pos newState) pt;
          sn1 = (if sn = SnapNone then SnapBool (translateSnap roi) else sn)
      in if sn1 \<noteq> SnapBool False then getSnapPosition roi p sn1 else Inr p)"

definition translate :: "ROI \<Rightarrow> Point \<Rightarrow> snap \<Rightarrow> bool \<Rightarrow> bool \<Rightarrow> error + ROI" where
  "translate roi pt sn update finish =
     (case snappedPos roi pt sn of
        Inl e \<Rightarrow> Inl e
      | Inr p \<Rightarrow>
          (let newState = (stateCopy roi)\<lparr>pos := p\<rparr>;
               newState' = (case maxBounds roi of
                              None \<Rightarrow> newState
                            | Some mb \<Rightarrow>
                                newState\<lparr>pos := Point_add (pos newState)
                                                  (boundsShift mb (stateRect newState))\<rparr>)
           in Inr (setPos roi (pos newState') update finish)))"

subsection \<open>movePoint\<close>

text \<open>
  A branch of \<^verbatim>\<open>movePoint\<close> either returns early or falls through to the final
  \<^verbatim>\<open>stateChanged\<close>.
\<close>

datatype flow = Return ROI | Continue ROI

text \<open>\<open>lp0\<close> and \<open>lp1\<close>: the old and the requested handle position relative to the center.\<close>

definition localPoints :: "ROI \<Rightarrow> handle_info \<Rightarrow> Point \<Rightarrow> Point \<Rightarrow> Point \<times> Point" where
  "localPoints roi h c pt =
     (let p0 = mapSceneToParent roi (mapToScene roi (Point_mul (hpos h) (size' (state roi))));
          p1 = mapSceneToParent roi pt;
          cs = Point_mul c (size' (state roi))
      in (Point_sub (mapFromParent roi p0) cs, Point_sub (mapFromParent roi p1) cs))"

definition movePoint_t :: "ROI \<Rightarrow> handle_info \<Rightarrow> Point \<Rightarrow> 32 word \<Rightarrow> error + flow" where
  "movePoint_t roi h pt modifiers =
     (let p0 = mapSceneToParent roi (mapToScene roi (Point_mul (hpos h) (size' (state roi))));
          p1 = mapSceneToParent roi pt;
          sn = (if held modifiers ControlModifier then SnapBool True else SnapNone)
      in case translate roi (Point_sub p1 p0) sn False True of
           Inl e \<Rightarrow> Inl e
         | Inr roi' \<Rightarrow> Inr (Continue roi'))"

definition movePoint_f :: "ROI \<Rightarrow> nat \<Rightarrow> handle_info \<Rightarrow> Point \<Rightarrow> error + flow" where
  "movePoint_f roi i h pt =
     Inr (Continue (roi\<lparr>handles := (handles roi)[i := h\<lparr>itemPos := mapFromScene roi pt\<rparr>],
                        freeHandleMoved := True\<rparr>))"

text \<open>The scale handle: snapping of \<open>lp1\<close>, aspect lock, the new size and its corrections.\<close>

definition snapScalar :: "ROI \<Rightarrow> real \<Rightarrow> error + real" where
  "snapScalar roi v =
     (case snapSize roi of
        None \<Rightarrow> Inl TypeError
      | Some s \<Rightarrow> (case py_div v s of Inl e \<Rightarrow> Inl e | Inr q \<Rightarrow> Inr (py_round q * s)))"

definition scaleSnapPoint :: "ROI \<Rightarrow> 32 word \<Rightarrow> Point \<Rightarrow> error + Point" where
  "scaleSnapPoint roi modifiers lp1 =
     (if scaleSnap roi \<or> held modifiers ControlModifier
      then (case snapScalar roi (px lp1) of
              Inl e \<Rightarrow> Inl e
            | Inr vx \<Rightarrow>
                (case snapScalar roi (py lp1) of
                   Inl e \<Rightarrow> Inl e
                 | Inr vy \<Rightarrow> Inr (Point vx vy)))
      else Inr lp1)"

definition lockAspectPoint :: "handle_info \<Rightarrow> 32 word \<Rightarrow> Point \<Rightarrow> Point \<Rightarrow> error + Point" where
  "lockAspectPoint h modifiers lp0 lp1 =
     (case lockAspect h of
        None \<Rightarrow> Inl KeyError
      | Some l \<Rightarrow> if l \<or> held modifiers AltModifier then Point_proj lp1 lp0 else Inr lp1)"

definition correctSize :: "ROI \<Rightarrow> Point \<Rightarrow> Point \<Rightarrow> Point" where
  "correctSize roi old newSize =
     (let n0 = (if px newSize = 0 then px old else px newSize);
          n1 = (if py newSize = 0 then py old else py newSize);
          n0' = (if \<not> invertible roi \<and> n0 < 0 then px old else n0);
          n1' = (if \<not> invertible roi \<and> n1 < 0 then py old else n1);
          n0'' = (if aspectLocked roi then n1' else n0')
      in Point n0'' n1')"

definition scaleNewSize :: "ROI \<Rightarrow> handle_info \<Rightarrow> Point \<Rightarrow> Point \<Rightarrow> 32 word \<Rightarrow> error + Point" where
  "scaleNewSize roi h c pt modifiers =
     (let lp0 = fst (localPoints roi h c pt);
          lp1 = snd (localPoints roi h c pt);
          lp1a = Point (if px c = px (hpos h) then 0 else px lp1)
                       (if py c = py (hpos h) then 0 else py lp1)
      in case scaleSnapPoint roi modifiers lp1a of
           Inl e \<Rightarrow> Inl e
         | Inr lp1b \<Rightarrow>
             (case lockAspectPoint h modifiers lp0 lp1b of
                Inl e \<Rightarrow> Inl e
              | Inr lp1c \<Rightarrow>
                  (let hs = Point_sub (hpos h) c;
                       hs' = Point (if px hs = 0 then 1 else px hs) (if py hs = 0 then 1 else py hs)
                   in case Point_div lp1c hs' of
                        Inl e \<Rightarrow> Inl e
                      | Inr newSize \<Rightarrow> Inr (correctSize roi (size' (stateCopy roi)) newSize))))"

text \<open>The state a scale-handle move proposes (\<^verbatim>\<open>newState\<close> before the bounds check).\<close>

definition scaleNewState :: "ROI \<Rightarrow> handle_info \<Rightarrow> Point \<Rightarrow> 32 word \<Rightarrow> error + state" where
  "scaleNewState roi h pt modifiers =
     (case center h of
        None \<Rightarrow> Inl KeyError
      | Some c \<Rightarrow>
          (case scaleNewSize roi h c pt modifiers of
             Inl e \<Rightarrow> Inl e
           | Inr newSize \<Rightarrow>
               (let s0 = Point_mul c (size' (state roi));
                    s1 = Point_mul c newSize;
                    cc = Point_sub (mapToParent roi (Point_sub s0 s1)) (mapToParent roi (Point 0 0))
                in Inr ((stateCopy roi)\<lparr>size' := newSize,
                                         pos := Point_add (pos (stateCopy roi)) cc\<rparr>))))"

definition outOfBounds :: "ROI \<Rightarrow> state \<Rightarrow> bool" where
  "outOfBounds roi newState =
     (case maxBounds roi of
        None \<Rightarrow> False
      | Some mb \<Rightarrow> \<not> rect_contains mb (stateRect newState))"

definition movePoint_s :: "ROI \<Rightarrow> handle_info \<Rightarrow> Point \<Rightarrow> 32 word \<Rightarrow> error + flow" where
  "movePoint_s roi h pt modifiers =
     (case scaleNewState roi h pt modifiers of
        Inl e \<Rightarrow> Inl e
      | Inr newState \<Rightarrow>
          if outOfBounds roi newState then Inr (Return roi)
          else Inr (Continue (setSize (setPos roi (pos newState) False True)
                                      (size' newState) False True)))"

text \<open>The rotate handles: \<^verbatim>\<open>ang\<close>, snapped to 15 degrees when asked for.\<close>

definition snapAngle :: "ROI \<Rightarrow> 32 word \<Rightarrow> real \<Rightarrow> real" where
  "snapAngle roi modifiers ang =
     (if rotateSnap roi \<or> held modifiers ControlModifier then py_round (ang / 15) * 15 else ang)"

definition newAngle :: "ROI \<Rightarrow> 32 word \<Rightarrow> Point \<Rightarrow> Point \<Rightarrow> error + real" where
  "newAngle roi modifiers lp0 lp1 =
     (case Point_angle lp0 lp1 of
        None \<Rightarrow> Inl TypeError
      | Some a \<Rightarrow> Inr (snapAngle roi modifiers (angle (stateCopy roi) - a)))"

text \<open>
  The state a rotate-handle move proposes; \<open>None\<close> where the source returns before
  computing one.
\<close>

definition rotateNewState :: "ROI \<Rightarrow> handle_info \<Rightarrow> Point \<Rightarrow> 32 word \<Rightarrow> error + state option" where
  "rotateNewState roi h pt modifiers =
     (if \<not> rotateAllowed roi then Inr None
      else case center h of
             None \<Rightarrow> Inl UnboundLocalError
           | Some c \<Rightarrow>
               (let lp0 = fst (localPoints roi h c pt);
                    lp1 = snd (localPoints roi h c pt);
                    cs = Point_mul c (size' (state roi))
                in if Point_length lp1 = 0 \<or> Point_length lp0 = 0 then Inr None
                   else case newAngle roi modifiers lp0 lp1 of
                          Inl e \<Rightarrow> Inl e
                        | Inr ang \<Rightarrow>
                            (let tr = rotation ang;
                                 cc = Point_sub (mapToParent roi cs)
                                        (Point_add (mapPoint tr cs) (pos (state roi)))
                             in Inr (Some ((stateCopy roi)\<lparr>angle := ang,
                                             pos := Point_add (pos (stateCopy roi)) cc\<rparr>)))))"

definition movePoint_r :: "ROI \<Rightarrow> nat \<Rightarrow> handle_info \<Rightarrow> Point \<Rightarrow> 32 word \<Rightarrow> error + flow" where
  "movePoint_r roi i h pt modifiers =
     (let roi1 = (if htype h = Hrf then roi\<lparr>freeHandleMoved := True\<rparr> else roi)
      in case rotateNewState roi1 h pt modifiers of
           Inl e \<Rightarrow> Inl e
         | Inr None \<Rightarrow> Inr (Return roi1)
         | Inr (Some newState) \<Rightarrow>
             if outOfBounds roi1 newState then Inr (Return roi1)
             else let roi2 = setAngle (setPos roi1 (pos newState) False True)
                                      (angle newState) False True;
                      p1 = mapSceneToParent roi1 pt
                  in Inr (Continue
                       (if htype h = Hrf
                        then roi2\<lparr>handles :=
                                    (handles roi2)[i := h\<lparr>itemPos := mapFromScene roi2 p1\<rparr>]\<rparr>
                        else roi2)))"

text \<open>The scale-rotate handle.\<close>

definition setAxis :: "Point \<Rightarrow> nat \<Rightarrow> real \<Rightarrow> Point" where
  "setAxis p ax v = (if ax = 0 then Point v (py p) else Point (px p) v)"

definition getAxis :: "Point \<Rightarrow> nat \<Rightarrow> real" where
  "getAxis p ax = (if ax = 0 then px p else py p)"

definition scaleRotateSize :: "ROI \<Rightarrow> handle_info \<Rightarrow> Point \<Rightarrow> Point \<Rightarrow> error + Point" where
  "scaleRotateSize roi h c lp1 =
     (let scaleAxis = (if px c = px (hpos h) then 1 else 0);
          hs = \<bar>getAxis (hpos h) scaleAxis - getAxis c scaleAxis\<bar>
      in case py_div (Point_length lp1) hs of
           Inl e \<Rightarrow> Inl e
         | Inr v \<Rightarrow>
             (case (if scaleSnap roi then snapScalar roi v else Inr v) of
                Inl e \<Rightarrow> Inl e
              | Inr v' \<Rightarrow>
                  Inr (setAxis (size' (stateCopy roi)) scaleAxis (if v' = 0 then 1 else v'))))"

definition scaleRotateNewState ::
  "ROI \<Rightarrow> handle_info \<Rightarrow> Point \<Rightarrow> 32 word \<Rightarrow> error + state option" where
  "scaleRotateNewState roi h pt modifiers =
     (case center h of
        None \<Rightarrow> Inl KeyError
      | Some c \<Rightarrow>
          (let lp0 = fst (localPoints roi h c pt);
               lp1 = snd (localPoints roi h c pt);
               cs = Point_mul c (size' (state roi))
           in if Point_length lp1 = 0 \<or> Point_length lp0 = 0 then Inr None
              else case newAngle roi modifiers lp0 lp1 of
                     Inl e \<Rightarrow> Inl e
                   | Inr ang \<Rightarrow>
                       (case scaleRotateSize roi h c lp1 of
                          Inl e \<Rightarrow> Inl e
                        | Inr newSize \<Rightarrow>
                            (let c1 = Point_mul c newSize;
                                 tr = rotation ang;
                                 cc = Point_sub (mapToParent roi cs)
                                        (Point_add (mapPoint tr c1) (pos (state roi)))
                             in Inr (Some \<lparr>pos = Point_add (pos (stateCopy roi)) cc,
                                           size' = newSize, angle = ang\<rparr>)))))"

definition dictOf :: "state \<Rightarrow> state_dict" where
  "dictOf st = \<lparr>d_pos = ArgPoint (pos st), d_size = ArgPoint (size' st), d_angle = angle st\<rparr>"

definition movePoint_sr :: "ROI \<Rightarrow> handle_info \<Rightarrow> Point \<Rightarrow> 32 word \<Rightarrow> error + flow" where
  "movePoint_sr roi h pt modifiers =
     (case scaleRotateNewState roi h pt modifiers of
        Inl e \<Rightarrow> Inl e
      | Inr None \<Rightarrow> Inr (Return roi)
      | Inr (Some newState) \<Rightarrow>
          if outOfBounds roi newState then Inr (Return roi)
          else Inr (Continue (setState roi (dictOf newState) False)))"

text \<open>
  \<^verbatim>\<open>movePoint(pt, pos, modifiers, finish)\<close>: \<open>i\<close> is the index of the handle and \<open>pt\<close>
  the requested handle position in scene coordinates.
\<close>

definition movePoint_branch :: "ROI \<Rightarrow> nat \<Rightarrow> Point \<Rightarrow> 32 word \<Rightarrow> error + flow" where
  "movePoint_branch roi i pt modifiers =
     (if i \<ge> length (handles roi) then Inl IndexError
      else let h = handles roi ! i
           in case htype h of
                Ht \<Rightarrow> movePoint_t roi h pt modifiers
              | Hf \<Rightarrow> movePoint_f roi i h pt
              | Hs \<Rightarrow> movePoint_s roi h pt modifiers
              | Hr \<Rightarrow> movePoint_r roi i h pt modifiers
              | Hrf \<Rightarrow> movePoint_r roi i h pt modifiers
              | Hsr \<Rightarrow> movePoint_sr roi h pt modifiers)"

definition movePoint :: "ROI \<Rightarrow> nat \<Rightarrow> Point \<Rightarrow> 32 word \<Rightarrow> bool \<Rightarrow> error + ROI" where
  "movePoint roi i pt modifiers finish =
     (case movePoint_branch roi i pt modifiers of
        Inl e \<Rightarrow> Inl e
      | Inr (Return roi') \<Rightarrow> Inr roi'
      | Inr (Continue roi') \<Rightarrow> Inr (stateChanged roi' finish))"

text \<open>
  The new state that a move of a scale, rotate or scale-rotate handle computes, before the
  check against \<^verbatim>\<open>maxBounds\<close>; \<open>None\<close> when the source returns without computing one.
\<close>

definition proposal :: "ROI \<Rightarrow> handle_info \<Rightarrow> Point \<Rightarrow> 32 word \<Rightarrow> error + state option" where
  "proposal roi h pt modifiers =
     (case htype h of
        Hs \<Rightarrow> (case scaleNewState roi h pt modifiers of Inl e \<Rightarrow> Inl e | Inr ns \<Rightarrow> Inr (Some ns))
      | Hr \<Rightarrow> rotateNewState roi h pt modifiers
      | Hrf \<Rightarrow> rotateNewState roi h pt modifiers
      | Hsr \<Rightarrow> scaleRotateNewState roi h pt modifiers
      | _ \<Rightarrow> Inr None)"

subsection \<open>getArraySlice\<close>

text \<open>
  \<open>dShape\<close> is \<^verbatim>\<open>(data.shape[axes[0]], data.shape[axes[1]])\<close>, \<open>tr0\<close> the transform
  \<^verbatim>\<open>self.sceneTransform() * img.sceneTransform().inverted()[0]\<close> from the ROI to the image
  and \<open>imgSize\<close> the image's \<^verbatim>\<open>width()\<close> and \<^verbatim>\<open>height()\<close>. The result is the one for
  \<^verbatim>\<open>returnSlice=False\<close>: the index bounds and the transform.
\<close>

definition boundingRect :: "ROI \<Rightarrow> QRectF" where
  "boundingRect roi =
     normalized (mkRect 0 0 (px (size' (state roi))) (py (size' (state roi))))"

definition indexBounds :: "QRectF \<Rightarrow> (int \<times> int) \<times> (int \<times> int)" where
  "indexBounds intBounds =
     ((py_int (min (rect_left intBounds) (rect_right intBounds)),
       py_int (1 + max (rect_left intBounds) (rect_right intBounds))),
      (py_int (min (rect_bottom intBounds) (rect_top intBounds)),
       py_int (1 + max (rect_bottom intBounds) (rect_top intBounds))))"

definition getArraySlice ::
  "ROI \<Rightarrow> nat \<times> nat \<Rightarrow> QTransform \<Rightarrow> real \<times> real
     \<Rightarrow> error + (((int \<times> int) \<times> (int \<times> int)) \<times> QTransform)" where
  "getArraySlice roi dShape tr0 imgSize =
     (case py_div (real (fst dShape)) (fst imgSize) of
        Inl e \<Rightarrow> Inl e
      | Inr sx \<Rightarrow>
          (case py_div (real (snd dShape)) (snd imgSize) of
             Inl e \<Rightarrow> Inl e
           | Inr sy \<Rightarrow>
               (let tr = scaleT tr0 sx sy;
                    dataBounds = mapRect tr (boundingRect roi);
                    intBounds = rect_intersect dataBounds
                                  (mkRect 0 0 (real (fst dShape)) (real (snd dShape)))
                in Inr (indexBounds intBounds, tr))))"

section \<open>ScanCanvasItem\<close>

text \<open>
  A directory handle of the acquisition data: its names, the type the data model gives it,
  the \<^verbatim>\<open>'Scanner'\<close> entry of its \<^verbatim>\<open>info()\<close> (absent, or with an optional
  \<^verbatim>\<open>'position'\<close> and an optional \<^verbatim>\<open>'spotSize'\<close>) and its sub-directories.
\<close>

record scanner_info =
  position :: "(real \<times> real) option"
  spotSize :: "real option"

datatype DirHandle =
  DirHandle (shortName: string) (fullName: string) (dirType: string)
            (scanner: "scanner_info option") (subDirHandles: "DirHandle list")

record spot =
  spot_pos :: "real \<times> real"
  spot_size :: real
  spot_data :: DirHandle

record opts =
  opt_handle :: "DirHandle option"
  opt_name :: "string option"
  opt_subDirs :: "DirHandle list option"

text \<open>The scatter-plot items constructed so far, each with its spots.\<close>

record world =
  scatterPlotItems :: "spot list list"

record ScanCanvasItem =
  item_name :: string
  scatterPlotData :: "spot list"
  gitem :: "spot list"
  originalSpotSize :: real

definition defaultSize :: real where
  "defaultSize = 1 / 10000"

definition selectDirs :: "opts \<Rightarrow> DirHandle \<Rightarrow> error + DirHandle list" where
  "selectDirs os dirHandle =
     (case opt_subDirs os of
        Some ds \<Rightarrow> Inr ds
      | None \<Rightarrow>
          if dirType dirHandle = ''ProtocolSequence'' then Inr (subDirHandles dirHandle)
          else if dirType dirHandle = ''Protocol'' then Inr [dirHandle]
          else Inl (Exception (''Invalid dir type '' @ [CHR 39] @ dirType dirHandle @ [CHR 39])))"

definition hasPosition :: "DirHandle \<Rightarrow> bool" where
  "hasPosition d =
     (case scanner d of None \<Rightarrow> False | Some sc \<Rightarrow> position sc \<noteq> None)"

fun collectSpots :: "DirHandle list \<Rightarrow> spot list" where
  "collectSpots [] = []"
| "collectSpots (d # ds) =
     (case scanner d of
        None \<Rightarrow> collectSpots ds
      | Some sc \<Rightarrow>
          (case position sc of
             None \<Rightarrow> collectSpots ds
           | Some p \<Rightarrow>
               \<lparr>spot_pos = p,
                spot_size = (case spotSize sc of Some s \<Rightarrow> s | None \<Rightarrow> defaultSize),
                spot_data = d\<rparr> # collectSpots ds))"

definition ScanCanvasItem_init :: "opts \<Rightarrow> world \<Rightarrow> (error + ScanCanvasItem) \<times> world" where
  "ScanCanvasItem_init os w =
     (case opt_handle os of
        None \<Rightarrow>
          (Inl (Exception
             (''ScanCanvasItem must be initialized with '' @ [CHR 39] @ ''handle'' @ [CHR 39]
              @ '' or '' @ [CHR 39] @ ''handles'' @ [CHR 39] @ '' specified in opts'')), w)
      | Some dirHandle \<Rightarrow>
          (let nm = (case opt_name os of None \<Rightarrow> shortName dirHandle | Some n \<Rightarrow> n)
           in case selectDirs os dirHandle of
                Inl e \<Rightarrow> (Inl e, w)
              | Inr dirs \<Rightarrow>
                  (let pts = collectSpots dirs
                   in if length pts = 0
                      then (Inl (Exception (''No data found in scan '' @ fullName dirHandle @ ''.'')), w)
                      else (Inr \<lparr>item_name = nm, scatterPlotData = pts, gitem = pts,
                                 originalSpotSize = spot_size (last pts)\<rparr>,
                            w\<lparr>scatterPlotItems := scatterPlotItems w @ [pts]\<rparr>))))"

section \<open>Example objects\<close>

text \<open>
  An ROI built like \<^verbatim>\<open>TestROI\<close>: a translate handle, a scale handle, a rotate handle and
  a scale-rotate handle, with rotation snapping switched on and generous bounds.
\<close>

definition baseROI :: ROI where
  "baseROI = ROI_init (Point 1 1) (Point 2 2) 0 False (Some (mkRect (-10) (-10) 20 20))
               (Some 1) False False True"

definition exampleROI :: ROI where
  "exampleROI =
     addHandle
       (addRotateHandle
          (addScaleHandle
             (addTranslateHandle baseROI (Point (1/2) (1/2)))
             (Point 1 1) (Point 0 0) False)
          (Point 1 0) (Point 0 0))
       Hsr (Point 1 (1/2)) (Some (Point (1/2) (1/2))) None"

text \<open>
  An unbounded ROI turned by 7 degrees, with a rotate handle, a scale-rotate handle and a
  free-rotate handle; rotation snapping is switched on.
\<close>

definition tiltedROI :: ROI where
  "tiltedROI =
     addRotateFreeHandle
       (addHandle
          (addRotateHandle
             (ROI_init (Point 1 1) (Point 2 2) 7 False None (Some 1) False False True)
             (Point 1 0) (Point 0 0))
          Hsr (Point 1 (1/2)) (Some (Point (1/2) (1/2))) None)
       (Point 0 1) (Point 0 0)"

text \<open>An inverted ROI (negative width) inside the bounds \<open>[0, 10] \<times> [0, 10]\<close>.\<close>

definition invertedROI :: ROI where
  "invertedROI = ROI_init (Point 5 5) (Point (-2) 2) 0 True (Some (mkRect 0 0 10 10))
                   (Some 1) False False False"

text \<open>An ROI that covers a 10 by 10 image exactly.\<close>

definition fullROI :: ROI where
  "fullROI = ROI_init (Point 0 0) (Point 10 10) 0 False None (Some 1) False False False"

text \<open>A scan directory with one finished protocol and one without scanner data.\<close>

definition spotDir :: DirHandle where
  "spotDir = DirHandle ''000'' ''scan/000'' ''Protocol''
               (Some \<lparr>position = Some (1/1000, 2/1000), spotSize = None\<rparr>) []"

definition emptyDir :: DirHandle where
  "emptyDir = DirHandle ''001'' ''scan/001'' ''Protocol'' None []"

definition scanDir :: DirHandle where
  "scanDir = DirHandle ''scan'' ''scan'' ''ProtocolSequence'' None [spotDir, emptyDir]"

definition emptyScanDir :: DirHandle where
  "emptyScanDir = DirHandle ''scan2'' ''scan2'' ''ProtocolSequence'' None [emptyDir]"

section \<open>Properties\<close>

subsection \<open>Rounding\<close>

lemma py_round_close: "\<bar>v - py_round v\<bar> \<le> 1/2"
proof (cases "0 \<le> v")
  case True
  have "of_int \<lfloor>v + 1/2\<rfloor> \<le> v + 1/2" "v + 1/2 < of_int \<lfloor>v + 1/2\<rfloor> + 1"
    by linarith+
  moreover have "py_round v = of_int \<lfloor>v + 1/2\<rfloor>" using True by (simp add: py_round_def)
  ultimately show ?thesis by linarith
next
  case False
  have "v - 1/2 \<le> of_int \<lceil>v - 1/2\<rceil>" "of_int \<lceil>v - 1/2\<rceil> < v - 1/2 + 1"
    by linarith+
  moreover have "py_round v = of_int \<lceil>v - 1/2\<rceil>" using False by (simp add: py_round_def)
  ultimately show ?thesis by linarith
qed

lemma py_round_nearest: "\<bar>v - py_round v\<bar> \<le> \<bar>v - of_int k\<bar>"
proof -
  obtain n :: int where n: "py_round v = of_int n"
    unfolding py_round_def by (cases "0 \<le> v") auto
  show ?thesis
  proof (cases "k = n")
    case True
    then show ?thesis using n by simp
  next
    case False
    then have "1 \<le> \<bar>k - n\<bar>" by linarith
    then have "(1::real) \<le> \<bar>of_int k - of_int n\<bar>"
      by (metis of_int_1_le_iff of_int_abs of_int_diff)
    moreover have "\<bar>v - of_int n\<bar> \<le> 1/2" using py_round_close [of v] n by simp
    ultimately show ?thesis using n by linarith
  qed
qed

lemma grid_nearest:
  assumes "w \<noteq> 0"
  shows "\<bar>v - py_round (v / w) * w\<bar> \<le> \<bar>v - of_int k * w\<bar>"
proof -
  have a: "v - py_round (v / w) * w = (v / w - py_round (v / w)) * w" using assms
    by (simp add: field_simps)
  have b: "v - of_int k * w = (v / w - of_int k) * w" using assms
    by (simp add: field_simps)
  show ?thesis unfolding a b abs_mult
    by (intro mult_right_mono py_round_nearest) simp
qed

subsection \<open>State setters\<close>

lemma state_stateChangeFinished [simp]: "state (stateChangeFinished roi) = state roi"
  by (simp add: stateChangeFinished_def)

lemma state_stateChanged [simp]: "state (stateChanged roi f) = state roi"
  by (simp add: stateChanged_def Let_def)

lemma stateCopy_eq [simp]: "stateCopy roi = state roi"
  by (simp add: stateCopy_def)

lemma state_setPos [simp]: "state (setPos roi p u f) = (state roi)\<lparr>pos := p\<rparr>"
  by (simp add: setPos_def Let_def)

lemma state_setSize [simp]: "state (setSize roi s u f) = (state roi)\<lparr>size' := s\<rparr>"
  by (simp add: setSize_def Let_def)

lemma state_setAngle [simp]: "state (setAngle roi a u f) = (state roi)\<lparr>angle := a\<rparr>"
  by (simp add: setAngle_def Let_def)

lemma state_setState [simp]:
  "state (setState roi d u) = \<lparr>pos = mkPoint (d_pos d), size' = mkPoint (d_size d), angle = d_angle d\<rparr>"
  by (simp add: setState_def Let_def)

lemma mkPoint_tuple [simp]: "mkPoint (ArgTuple (tuple p)) = p"
  by (simp add: tuple_def Point_of_tuple_def)

lemma mkPoint_point [simp]: "mkPoint (ArgPoint p) = p"
  by simp

text \<open>
  Claim C8. \<^verbatim>\<open>saveState\<close> returns the position and the size as tuples and the
  angle as it is, and \<^verbatim>\<open>setState\<close> on that dict restores the saved state, whatever
  state the ROI it is applied to is in: \<^verbatim>\<open>getState()\<close> after
  \<^verbatim>\<open>setState(saved)\<close> equals \<^verbatim>\<open>getState()\<close> at the time of
  \<^verbatim>\<open>saved = saveState()\<close>. In particular \<^verbatim>\<open>setState(saveState())\<close> leaves
  \<^verbatim>\<open>getState()\<close> as it was.
\<close>

theorem saveState_setState_roundtrip:
  "d_pos (saveState roi) = ArgTuple (px (pos (state roi)), py (pos (state roi)))
   \<and> d_size (saveState roi) = ArgTuple (px (size' (state roi)), py (size' (state roi)))
   \<and> d_angle (saveState roi) = angle (state roi)
   \<and> getState (setState roi2 (saveState roi) update) = getState roi
   \<and> getState (setState roi (saveState roi) update) = getState roi"
  by (simp add: saveState_def getState_def tuple_def Point_of_tuple_def)

lemma translate_state:
  "translate roi d sn u f = Inr roi' \<Longrightarrow>
     size' (state roi') = size' (state roi) \<and> angle (state roi') = angle (state roi)"
  by (auto simp: translate_def Let_def split: sum.splits option.splits)

lemma movePoint_frame_parts:
  assumes "movePoint roi i pt modifiers finish = Inr roi'"
  shows "(htype (handles roi ! i) = Ht \<longrightarrow>
            size' (state roi') = size' (state roi) \<and> angle (state roi') = angle (state roi))
       \<and> (htype (handles roi ! i) = Hs \<longrightarrow> angle (state roi') = angle (state roi))
       \<and> (htype (handles roi ! i) = Hr \<longrightarrow> size' (state roi') = size' (state roi))"
proof -
  have t: "size' (state roi') = size' (state roi) \<and> angle (state roi') = angle (state roi)"
    if "htype (handles roi ! i) = Ht"
    using assms that
    by (auto simp: movePoint_def movePoint_branch_def movePoint_t_def Let_def
             split: sum.splits flow.splits if_splits dest!: translate_state)
  have s: "angle (state roi') = angle (state roi)" if "htype (handles roi ! i) = Hs"
    using assms that
    by (auto simp: movePoint_def movePoint_branch_def movePoint_s_def Let_def
             split: sum.splits flow.splits if_splits)
  have r: "size' (state roi') = size' (state roi)" if "htype (handles roi ! i) = Hr"
    using assms that
    by (auto simp: movePoint_def movePoint_branch_def movePoint_r_def Let_def
             split: sum.splits flow.splits if_splits option.splits)
  show ?thesis using t s r by blast
qed

subsection \<open>Handle moves\<close>

lemma mapToParent_free [simp]:
  "mapToParent (roi\<lparr>freeHandleMoved := b\<rparr>) p = mapToParent roi p"
  by (simp add: mapToParent_def)

lemma localPoints_free [simp]:
  "localPoints (roi\<lparr>freeHandleMoved := b\<rparr>) h c pt = localPoints roi h c pt"
  by (simp add: localPoints_def mapSceneToParent_def mapToScene_def
        mapFromScene_def mapToParent_def mapFromParent_def)

lemma newAngle_free [simp]:
  "newAngle (roi\<lparr>freeHandleMoved := b\<rparr>) m lp0 lp1 = newAngle roi m lp0 lp1"
  by (simp add: newAngle_def snapAngle_def split: option.splits)

lemma rotateNewState_free [simp]:
  "rotateNewState (roi\<lparr>freeHandleMoved := b\<rparr>) h pt m = rotateNewState roi h pt m"
  by (simp add: rotateNewState_def Let_def split: option.splits sum.splits)

lemma outOfBounds_free [simp]:
  "outOfBounds (roi\<lparr>freeHandleMoved := b\<rparr>) ns = outOfBounds roi ns"
  by (simp add: outOfBounds_def)

text \<open>
  Claim C7. With \<^verbatim>\<open>maxBounds\<close> set, a move of a scale, rotate, free-rotate or
  scale-rotate handle whose new state has a state rectangle that \<^verbatim>\<open>maxBounds\<close> does not
  contain returns normally and leaves position, size and angle as they were.
\<close>

theorem movePoint_out_of_bounds_atomic:
  assumes "i < length (handles roi)"
    and "maxBounds roi = Some mb"
    and "htype (handles roi ! i) \<in> {Hs, Hr, Hrf, Hsr}"
    and "proposal roi (handles roi ! i) pt modifiers = Inr (Some ns)"
    and "\<not> rect_contains mb (stateRect ns)"
  shows "\<exists>roi'. movePoint roi i pt modifiers finish = Inr roi' \<and> state roi' = state roi"
proof -
  have oob: "outOfBounds roi ns" using assms(2,5) by (simp add: outOfBounds_def)
  consider "htype (handles roi ! i) = Hs" | "htype (handles roi ! i) = Hr"
    | "htype (handles roi ! i) = Hrf" | "htype (handles roi ! i) = Hsr"
    using assms(3) by auto
  then show ?thesis
  proof cases
    case 1
    then show ?thesis using assms(1,4) oob
      by (auto simp: proposal_def movePoint_def movePoint_branch_def movePoint_s_def
               split: sum.splits)
  next
    case 2
    then show ?thesis using assms(1,4) oob
      by (auto simp: proposal_def movePoint_def movePoint_branch_def movePoint_r_def)
  next
    case 3
    then show ?thesis using assms(1,4) oob
      by (auto simp: proposal_def movePoint_def movePoint_branch_def movePoint_r_def)
  next
    case 4
    then show ?thesis using assms(1,4) oob
      by (auto simp: proposal_def movePoint_def movePoint_branch_def movePoint_sr_def)
  qed
qed

lemma correctSize_nonneg:
  assumes "\<not> invertible roi" "0 \<le> px old" "0 \<le> py old"
  shows "0 \<le> px (correctSize roi old n) \<and> 0 \<le> py (correctSize roi old n)"
  using assms by (auto simp: correctSize_def Let_def)

text \<open>
  Claim C9. For an ROI that is not invertible and whose size components are not
  negative, a scale-handle move that returns leaves both size components non-negative.
\<close>

theorem scale_move_size_nonnegative:
  assumes "\<not> invertible roi"
    and "0 \<le> px (size' (state roi))" and "0 \<le> py (size' (state roi))"
    and "htype (handles roi ! i) = Hs"
    and "movePoint roi i pt modifiers finish = Inr roi'"
  shows "0 \<le> px (size' (state roi')) \<and> 0 \<le> py (size' (state roi'))"
proof -
  have "state roi' = state roi \<or>
        (\<exists>n p. size' (state roi') = correctSize roi (size' (state roi)) n)"
    using assms(4,5)
    by (auto simp: movePoint_def movePoint_branch_def movePoint_s_def scaleNewState_def
                   scaleNewSize_def Let_def
             split: sum.splits flow.splits if_splits option.splits)
  then show ?thesis using assms(1-3) correctSize_nonneg by auto
qed

lemma snapAngle_multiple:
  assumes "rotateSnap roi \<or> held modifiers ControlModifier"
  shows "\<exists>k::int. snapAngle roi modifiers a = 15 * of_int k"
proof -
  obtain n :: int where "py_round (a / 15) = of_int n"
    unfolding py_round_def by (cases "0 \<le> a / 15") auto
  then show ?thesis using assms by (auto simp: snapAngle_def)
qed

lemma newAngle_multiple:
  assumes "rotateSnap roi \<or> held modifiers ControlModifier"
    and "newAngle roi modifiers lp0 lp1 = Inr ang"
  shows "\<exists>k::int. ang = 15 * of_int k"
  using assms snapAngle_multiple [OF assms(1)]
  by (auto simp: newAngle_def split: option.splits)

lemma rotateNewState_angle:
  assumes "rotateSnap roi \<or> held modifiers ControlModifier"
    and "rotateNewState roi h pt modifiers = Inr (Some ns)"
  shows "\<exists>k::int. angle ns = 15 * of_int k"
  using assms(2) newAngle_multiple [OF assms(1)]
  by (auto simp: rotateNewState_def Let_def split: if_splits option.splits sum.splits)

lemma scaleRotateNewState_angle:
  assumes "rotateSnap roi \<or> held modifiers ControlModifier"
    and "scaleRotateNewState roi h pt modifiers = Inr (Some ns)"
  shows "\<exists>k::int. angle ns = 15 * of_int k"
  using assms(2) newAngle_multiple [OF assms(1)]
  by (auto simp: scaleRotateNewState_def Let_def split: if_splits option.splits sum.splits)

lemma rotateNewState_size:
  "rotateNewState roi h pt modifiers = Inr (Some ns) \<Longrightarrow> size' ns = size' (state roi)"
  by (auto simp: rotateNewState_def Let_def split: if_splits option.splits sum.splits)

text \<open>
  A returning move of a rotate, free-rotate or scale-rotate handle with snapping on leaves
  the state as it was or writes the proposed state, whose angle is a multiple of 15.
\<close>

lemma rotate_move_untouched_or_snapped:
  assumes "htype (handles roi ! i) \<in> {Hr, Hrf, Hsr}"
    and "rotateSnap roi \<or> held modifiers ControlModifier"
    and "movePoint roi i pt modifiers finish = Inr roi'"
  shows "state roi' = state roi \<and>
           (proposal roi (handles roi ! i) pt modifiers = Inr None \<or>
            (\<exists>ns. proposal roi (handles roi ! i) pt modifiers = Inr (Some ns) \<and> outOfBounds roi ns))
         \<or> (\<exists>ns k. proposal roi (handles roi ! i) pt modifiers = Inr (Some ns) \<and>
                state roi' = ns \<and> angle (state roi') = 15 * of_int (k::int))"
proof -
  consider "htype (handles roi ! i) = Hr \<or> htype (handles roi ! i) = Hrf"
    | "htype (handles roi ! i) = Hsr"
    using assms(1) by auto
  then show ?thesis
  proof cases
    case 1
    then have p: "proposal roi (handles roi ! i) pt modifiers
                  = rotateNewState roi (handles roi ! i) pt modifiers"
      by (auto simp: proposal_def)
    show ?thesis
    proof (cases "rotateNewState roi (handles roi ! i) pt modifiers")
      case (Inl e)
      then show ?thesis using assms(3) 1
        by (auto simp: movePoint_def movePoint_branch_def movePoint_r_def split: if_splits)
    next
      case (Inr o1)
      show ?thesis
      proof (cases o1)
        case None
        then show ?thesis using assms(3) 1 Inr p
          by (auto simp: movePoint_def movePoint_branch_def movePoint_r_def split: if_splits)
      next
        case (Some ns)
        obtain k :: int where k: "angle ns = 15 * of_int k"
          using rotateNewState_angle [OF assms(2)] Inr Some by blast
        have sz: "size' ns = size' (state roi)"
          using rotateNewState_size Inr Some by blast
        show ?thesis
        proof (cases "outOfBounds roi ns")
          case True
          then show ?thesis using assms(3) 1 Inr Some p
            by (auto simp: movePoint_def movePoint_branch_def movePoint_r_def split: if_splits)
        next
          case False
          have "state roi' = (state roi)\<lparr>pos := pos ns, angle := angle ns\<rparr>"
            using assms(3) 1 Inr Some False
            by (auto simp: movePoint_def movePoint_branch_def movePoint_r_def Let_def
                     split: if_splits)
          then have "state roi' = ns" using sz by simp
          then show ?thesis using k p Inr Some by auto
        qed
      qed
    qed
  next
    case 2
    then have p: "proposal roi (handles roi ! i) pt modifiers
                  = scaleRotateNewState roi (handles roi ! i) pt modifiers"
      by (auto simp: proposal_def)
    show ?thesis
    proof (cases "scaleRotateNewState roi (handles roi ! i) pt modifiers")
      case (Inl e)
      then show ?thesis using assms(3) 2
        by (auto simp: movePoint_def movePoint_branch_def movePoint_sr_def split: if_splits)
    next
      case (Inr o1)
      show ?thesis
      proof (cases o1)
        case None
        then show ?thesis using assms(3) 2 Inr p
          by (auto simp: movePoint_def movePoint_branch_def movePoint_sr_def split: if_splits)
      next
        case (Some ns)
        obtain k :: int where k: "angle ns = 15 * of_int k"
          using scaleRotateNewState_angle [OF assms(2)] Inr Some by blast
        show ?thesis
        proof (cases "outOfBounds roi ns")
          case True
          then show ?thesis using assms(3) 2 Inr Some p
            by (auto simp: movePoint_def movePoint_branch_def movePoint_sr_def split: if_splits)
        next
          case False
          have "state roi' = ns"
            using assms(3) 2 Inr Some False
            by (auto simp: movePoint_def movePoint_branch_def movePoint_sr_def dictOf_def
                     split: if_splits)
          then show ?thesis using k p Inr Some by auto
        qed
      qed
    qed
  qed
qed

subsection \<open>Fields of constructed objects\<close>

lemma stateChanged_fields [simp]:
  "invertible (stateChanged roi f) = invertible roi"
  "maxBounds (stateChanged roi f) = maxBounds roi"
  "snapSize (stateChanged roi f) = snapSize roi"
  "translateSnap (stateChanged roi f) = translateSnap roi"
  "rotateSnap (stateChanged roi f) = rotateSnap roi"
  "scaleSnap (stateChanged roi f) = scaleSnap roi"
  "aspectLocked (stateChanged roi f) = aspectLocked roi"
  "rotateAllowed (stateChanged roi f) = rotateAllowed roi"
  by (simp_all add: stateChanged_def stateChangeFinished_def Let_def)

lemma stateChanged_no_handles [simp]:
  "handles roi = [] \<Longrightarrow> handles (stateChanged roi f) = []"
  by (simp add: stateChanged_def stateChangeFinished_def Let_def)

lemma setPos_fields [simp]:
  "invertible (setPos roi p u f) = invertible roi"
  "maxBounds (setPos roi p u f) = maxBounds roi"
  "snapSize (setPos roi p u f) = snapSize roi"
  "translateSnap (setPos roi p u f) = translateSnap roi"
  "rotateSnap (setPos roi p u f) = rotateSnap roi"
  "scaleSnap (setPos roi p u f) = scaleSnap roi"
  "aspectLocked (setPos roi p u f) = aspectLocked roi"
  "rotateAllowed (setPos roi p u f) = rotateAllowed roi"
  "handles roi = [] \<Longrightarrow> handles (setPos roi p u f) = []"
  by (simp_all add: setPos_def Let_def)

lemma setSize_fields [simp]:
  "invertible (setSize roi p u f) = invertible roi"
  "maxBounds (setSize roi p u f) = maxBounds roi"
  "snapSize (setSize roi p u f) = snapSize roi"
  "translateSnap (setSize roi p u f) = translateSnap roi"
  "rotateSnap (setSize roi p u f) = rotateSnap roi"
  "scaleSnap (setSize roi p u f) = scaleSnap roi"
  "aspectLocked (setSize roi p u f) = aspectLocked roi"
  "rotateAllowed (setSize roi p u f) = rotateAllowed roi"
  "handles roi = [] \<Longrightarrow> handles (setSize roi p u f) = []"
  by (simp_all add: setSize_def Let_def)

lemma setAngle_fields [simp]:
  "invertible (setAngle roi a u f) = invertible roi"
  "maxBounds (setAngle roi a u f) = maxBounds roi"
  "snapSize (setAngle roi a u f) = snapSize roi"
  "translateSnap (setAngle roi a u f) = translateSnap roi"
  "rotateSnap (setAngle roi a u f) = rotateSnap roi"
  "scaleSnap (setAngle roi a u f) = scaleSnap roi"
  "aspectLocked (setAngle roi a u f) = aspectLocked roi"
  "rotateAllowed (setAngle roi a u f) = rotateAllowed roi"
  "handles roi = [] \<Longrightarrow> handles (setAngle roi a u f) = []"
  by (simp_all add: setAngle_def Let_def)

lemma ROI_init_fields [simp]:
  "state (ROI_init p s a i mb sn sc tr ro) = \<lparr>pos = p, size' = s, angle = a\<rparr>"
  "handles (ROI_init p s a i mb sn sc tr ro) = []"
  "invertible (ROI_init p s a i mb sn sc tr ro) = i"
  "maxBounds (ROI_init p s a i mb sn sc tr ro) = mb"
  "snapSize (ROI_init p s a i mb sn sc tr ro) = sn"
  "translateSnap (ROI_init p s a i mb sn sc tr ro) = tr"
  "rotateSnap (ROI_init p s a i mb sn sc tr ro) = ro"
  "scaleSnap (ROI_init p s a i mb sn sc tr ro) = sc"
  "aspectLocked (ROI_init p s a i mb sn sc tr ro) = False"
  "rotateAllowed (ROI_init p s a i mb sn sc tr ro) = True"
  by (simp_all add: ROI_init_def)

lemma addHandle_fields [simp]:
  "state (addHandle roi ty p c l) = state roi"
  "invertible (addHandle roi ty p c l) = invertible roi"
  "maxBounds (addHandle roi ty p c l) = maxBounds roi"
  "snapSize (addHandle roi ty p c l) = snapSize roi"
  "translateSnap (addHandle roi ty p c l) = translateSnap roi"
  "rotateSnap (addHandle roi ty p c l) = rotateSnap roi"
  "scaleSnap (addHandle roi ty p c l) = scaleSnap roi"
  "aspectLocked (addHandle roi ty p c l) = aspectLocked roi"
  "rotateAllowed (addHandle roi ty p c l) = rotateAllowed roi"
  "handles (addHandle roi ty p c l) = handles roi @
      [\<lparr>htype = ty, hpos = p, center = c, lockAspect = l,
        itemPos = Point_mul p (size' (state roi)), isChild = True\<rparr>]"
  by (simp_all add: addHandle_def)

lemma mkRect_sel [simp]:
  "rx (mkRect a b c d) = a" "ry (mkRect a b c d) = b"
  "rw (mkRect a b c d) = c" "rh (mkRect a b c d) = d"
  by (simp_all add: mkRect_def)

lemma rect_edges_mkRect [simp]:
  "rect_left (mkRect a b c d) = a"
  "rect_right (mkRect a b c d) = a + c"
  "rect_top (mkRect a b c d) = b"
  "rect_bottom (mkRect a b c d) = b + d"
  by (simp_all add: rect_left_def rect_right_def rect_top_def rect_bottom_def mkRect_def)

subsection \<open>Translating an inverted ROI\<close>

lemma rotation_0 [simp]: "rotation 0 = identityT"
  by (simp add: rotation_def)

lemma mapPoint_identityT [simp]: "mapPoint identityT p = p"
  by (simp add: mapPoint_def identityT_def)

lemma inverted_identityT [simp]: "inverted identityT = identityT"
  by (simp add: inverted_def identityT_def)

lemma mapRect_identityT [simp]: "mapRect identityT r = mkRect (rx r) (ry r) (rw r) (rh r)"
  by (simp add: mapRect_def identityT_def)

lemma stateRect_unrotated:
  "stateRect \<lparr>pos = Point a b, size' = Point c d, angle = 0\<rparr> = mkRect a b c d"
  by (simp add: stateRect_def adjusted_def mkRect_def)

lemma rect_contains_mkRect:
  "rect_contains (mkRect a b c d) (mkRect a' b' c' d') =
     (let l1 = (if c < 0 then a + c else a); r1 = (if c < 0 then a else a + c);
          l2 = (if c' < 0 then a' + c' else a'); r2 = (if c' < 0 then a' else a' + c');
          t1 = (if d < 0 then b + d else b); b1 = (if d < 0 then b else b + d);
          t2 = (if d' < 0 then b' + d' else b'); b2 = (if d' < 0 then b' else b' + d')
      in l1 \<noteq> r1 \<and> l2 \<noteq> r2 \<and> l1 \<le> l2 \<and> r2 \<le> r1 \<and>
         t1 \<noteq> b1 \<and> t2 \<noteq> b2 \<and> t1 \<le> t2 \<and> b2 \<le> b1)"
  by (auto simp: rect_contains_def lo_x_def hi_x_def lo_y_def hi_y_def mkRect_def Let_def)

lemma translate_invertedROI:
  "translate invertedROI (Point (-4) 0) SnapNone True True
     = Inr (setPos invertedROI (Point 1 5) True True)"
  by (simp add: invertedROI_def translate_def snappedPos_def stateRect_unrotated
        boundsShift_def Point_add_def mkRect_def rect_left_def rect_right_def rect_top_def
        rect_bottom_def Let_def)

text \<open>
  Claim C1, evaluated on an inverted ROI. The ROI of size \<open>(-2, 2)\<close> at \<open>(5, 5)\<close> covers
  \<open>[3, 5] \<times> [5, 7]\<close>, inside the bounds \<open>[0, 10] \<times> [0, 10]\<close>. After
  \<^verbatim>\<open>translate(-4, 0)\<close> its state rectangle has \<^verbatim>\<open>left() = 1\<close> and \<^verbatim>\<open>right() = -1\<close>:
  neither comparison of \<^verbatim>\<open>translate\<close> fires, the position is not corrected and the ROI
  covers \<open>[-1, 1]\<close>, outside the bounds.
\<close>

theorem translate_inverted_roi_leaves_bounds:
  "maxBounds invertedROI = Some (mkRect 0 0 10 10)
   \<and> rect_contains (mkRect 0 0 10 10) (stateRect (state invertedROI))
   \<and> map_sum id (\<lambda>r. stateRect (state r))
         (translate invertedROI (Point (-4) 0) SnapNone True True) = Inr (mkRect 1 5 (-2) 2)
   \<and> rect_left (mkRect 1 5 (-2) 2) = 1 \<and> rect_right (mkRect 1 5 (-2) 2) = -1
   \<and> \<not> rect_contains (mkRect 0 0 10 10) (mkRect 1 5 (-2) 2)"
proof -
  have s: "state invertedROI = \<lparr>pos = Point 5 5, size' = Point (-2) 2, angle = 0\<rparr>"
    and m: "maxBounds invertedROI = Some (mkRect 0 0 10 10)"
    by (simp_all add: invertedROI_def)
  show ?thesis
    by (simp add: translate_invertedROI s m stateRect_unrotated rect_contains_mkRect)
qed

subsection \<open>Slicing under an ROI that covers the image\<close>

lemma fullROI_py_div: "py_div 10 10 = Inr 1"
  by (simp add: py_div_def)

lemma scaleT_identityT: "scaleT identityT 1 1 = identityT"
  by (simp add: scaleT_def)

lemma boundingRect_fullROI: "boundingRect fullROI = mkRect 0 0 10 10"
  by (simp add: boundingRect_def fullROI_def normalized_def mkRect_def)

lemma mapRect_fullROI: "mapRect identityT (mkRect 0 0 10 10) = mkRect 0 0 10 10"
  by (simp add: mapRect_def identityT_def mkRect_def)

lemma rect_intersect_fullROI: "rect_intersect (mkRect 0 0 10 10) (mkRect 0 0 10 10) = mkRect 0 0 10 10"
  by (simp add: rect_intersect_def lo_x_def hi_x_def lo_y_def hi_y_def mkRect_def)

lemma indexBounds_fullROI: "indexBounds (mkRect 0 0 10 10) = ((0, 11), (0, 11))"
  by (simp add: indexBounds_def py_int_def)

text \<open>
  Claim C6, evaluated on an ROI that covers a 10 by 10 image exactly: the stop index on
  both axes is 11, one more than the length of the axis.
\<close>

theorem getArraySlice_full_image_stop_past_end:
  "getArraySlice fullROI (10, 10) identityT (10, 10) = Inr (((0, 11), (0, 11)), identityT)"
  by (simp add: getArraySlice_def fullROI_py_div scaleT_identityT boundingRect_fullROI mapRect_fullROI rect_intersect_fullROI indexBounds_fullROI Let_def)

subsection \<open>Snapping to a grid\<close>

lemma getSnapPosition_SnapGrid:
  "getSnapPosition roi p (SnapGrid (Point w h)) =
     (if w = 0 \<or> h = 0 then Inl ZeroDivisionError
      else Inr (Point (py_round (px p / w) * w) (py_round (py p / h) * h)))"
  by (simp add: getSnapPosition_def py_div_def)

lemma getSnapPosition_default:
  "sn = SnapNone \<or> sn = SnapBool True \<Longrightarrow>
     getSnapPosition roi p sn =
       (case snapSize roi of None \<Rightarrow> Inr p
        | Some s \<Rightarrow> getSnapPosition roi p (SnapGrid (Point s s)))"
  by (auto simp: getSnapPosition_def split: option.splits)

text \<open>
  Claim C2. With an explicit grid \<open>(w, h)\<close> of non-zero spacing, \<^verbatim>\<open>getSnapPosition\<close>
  returns \<open>(round(pos[0]/w)*w, round(pos[1]/h)*h)\<close>, and no grid point is nearer to
  \<open>pos\<close> on either axis. With \<^verbatim>\<open>snap\<close> \<^verbatim>\<open>None\<close> or \<^verbatim>\<open>True\<close> the grid is
  \<open>(snapSize, snapSize)\<close>, and \<open>pos\<close> is returned unchanged when \<^verbatim>\<open>snapSize\<close> is
  \<^verbatim>\<open>None\<close>.
\<close>

theorem getSnapPosition_nearest_grid_point:
  "(w \<noteq> 0 \<and> h \<noteq> 0 \<longrightarrow>
      getSnapPosition roi p (SnapGrid (Point w h))
        = Inr (Point (py_round (px p / w) * w) (py_round (py p / h) * h))
      \<and> (\<forall>k::int. \<bar>px p - py_round (px p / w) * w\<bar> \<le> \<bar>px p - of_int k * w\<bar>)
      \<and> (\<forall>k::int. \<bar>py p - py_round (py p / h) * h\<bar> \<le> \<bar>py p - of_int k * h\<bar>))
   \<and> (sn = SnapNone \<or> sn = SnapBool True \<longrightarrow>
        (\<forall>s. snapSize roi = Some s \<longrightarrow>
           getSnapPosition roi p sn = getSnapPosition roi p (SnapGrid (Point s s)))
        \<and> (snapSize roi = None \<longrightarrow> getSnapPosition roi p sn = Inr p))"
proof (intro conjI impI allI)
  assume "w \<noteq> 0 \<and> h \<noteq> 0"
  then show "getSnapPosition roi p (SnapGrid (Point w h))
        = Inr (Point (py_round (px p / w) * w) (py_round (py p / h) * h))"
    by (simp add: getSnapPosition_SnapGrid)
next
  fix k :: int assume "w \<noteq> 0 \<and> h \<noteq> 0"
  then show "\<bar>px p - py_round (px p / w) * w\<bar> \<le> \<bar>px p - of_int k * w\<bar>"
    by (simp add: grid_nearest)
next
  fix k :: int assume "w \<noteq> 0 \<and> h \<noteq> 0"
  then show "\<bar>py p - py_round (py p / h) * h\<bar> \<le> \<bar>py p - of_int k * h\<bar>"
    by (simp add: grid_nearest)
next
  fix s assume "sn = SnapNone \<or> sn = SnapBool True" "snapSize roi = Some s"
  then show "getSnapPosition roi p sn = getSnapPosition roi p (SnapGrid (Point s s))"
    by (simp add: getSnapPosition_default)
next
  assume "sn = SnapNone \<or> sn = SnapBool True" "snapSize roi = None"
  then show "getSnapPosition roi p sn = Inr p"
    by (simp add: getSnapPosition_default)
qed

lemma py_round_examples:
  "py_round (16/5) = 3" "py_round (49/20) = 2" "py_round (5/2) = 3" "py_round (-5/2) = -3"
  by (simp_all add: py_round_def)

theorem getSnapPosition_nearest_grid_point_witness:
  "getSnapPosition fullROI (Point (16/5) (49/10)) (SnapGrid (Point 1 2)) = Inr (Point 3 4)
   \<and> \<bar>16/5 - (3::real)\<bar> \<le> \<bar>16/5 - of_int 4 * 1\<bar>
   \<and> snapSize fullROI = Some 1
   \<and> getSnapPosition fullROI (Point (16/5) (49/10)) SnapNone
       = getSnapPosition fullROI (Point (16/5) (49/10)) (SnapGrid (Point 1 1))
   \<and> getSnapPosition (fullROI\<lparr>snapSize := None\<rparr>) (Point (16/5) (49/10)) (SnapBool True)
       = Inr (Point (16/5) (49/10))"
proof -
  have s: "snapSize fullROI = Some 1" by (simp add: fullROI_def)
  have r: "py_round (49 / (10 * 2)) = 2" using py_round_examples(2) by simp
  show ?thesis
    using getSnapPosition_nearest_grid_point
            [of 1 2 fullROI "Point (16/5) (49/10)" SnapNone]
          getSnapPosition_nearest_grid_point
            [of 1 2 "fullROI\<lparr>snapSize := None\<rparr>" "Point (16/5) (49/10)" "SnapBool True"]
          s
    by (simp add: py_round_examples r)
qed

subsection \<open>Scan items without data\<close>

lemma collectSpots_empty:
  "\<forall>d \<in> set dirs. \<not> hasPosition d \<Longrightarrow> collectSpots dirs = []"
proof (induction dirs)
  case Nil
  then show ?case by simp
next
  case (Cons d ds)
  then show ?case
    by (auto simp: hasPosition_def split: option.splits)
qed

lemma collectSpots_nonempty:
  "\<exists>d \<in> set dirs. hasPosition d \<Longrightarrow> collectSpots dirs \<noteq> []"
proof (induction dirs)
  case Nil
  then show ?case by simp
next
  case (Cons d ds)
  then show ?case
    by (auto simp: hasPosition_def split: option.splits)
qed

text \<open>
  Claim C5. \<^verbatim>\<open>ScanCanvasItem.__init__\<close> raises a plain \<^verbatim>\<open>Exception\<close> when
  \<^verbatim>\<open>'handle'\<close> is not in \<^verbatim>\<open>opts\<close>, and a plain \<^verbatim>\<open>Exception\<close> when none of the
  selected directories has a scanner position; in both cases no scatter-plot item has been
  created.
\<close>

theorem ScanCanvasItem_init_missing_data:
  "(opt_handle os = None \<longrightarrow>
      (\<exists>msg. ScanCanvasItem_init os w = (Inl (Exception msg), w)))
   \<and> (\<forall>dirHandle dirs.
        opt_handle os = Some dirHandle \<and> selectDirs os dirHandle = Inr dirs
        \<and> (\<forall>d \<in> set dirs. \<not> hasPosition d) \<longrightarrow>
          ScanCanvasItem_init os w =
            (Inl (Exception (''No data found in scan '' @ fullName dirHandle @ ''.'')), w))"
proof (intro conjI impI allI)
  assume "opt_handle os = None"
  then show "\<exists>msg. ScanCanvasItem_init os w = (Inl (Exception msg), w)"
    by (simp add: ScanCanvasItem_init_def)
next
  fix dirHandle dirs
  assume a: "opt_handle os = Some dirHandle \<and> selectDirs os dirHandle = Inr dirs
        \<and> (\<forall>d \<in> set dirs. \<not> hasPosition d)"
  then have "collectSpots dirs = []" using collectSpots_empty by blast
  with a show "ScanCanvasItem_init os w =
            (Inl (Exception (''No data found in scan '' @ fullName dirHandle @ ''.'')), w)"
    by (simp add: ScanCanvasItem_init_def)
qed

lemma selectDirs_emptyScanDir:
  "selectDirs \<lparr>opt_handle = Some emptyScanDir, opt_name = None, opt_subDirs = None\<rparr> emptyScanDir
     = Inr [emptyDir]"
  by (simp add: selectDirs_def emptyScanDir_def)

theorem ScanCanvasItem_init_missing_data_witness:
  "(\<exists>msg. ScanCanvasItem_init \<lparr>opt_handle = None, opt_name = None, opt_subDirs = None\<rparr>
             \<lparr>scatterPlotItems = []\<rparr> = (Inl (Exception msg), \<lparr>scatterPlotItems = []\<rparr>))
   \<and> selectDirs \<lparr>opt_handle = Some emptyScanDir, opt_name = None, opt_subDirs = None\<rparr>
         emptyScanDir = Inr [emptyDir]
   \<and> hasPosition emptyDir = False
   \<and> ScanCanvasItem_init \<lparr>opt_handle = Some emptyScanDir, opt_name = None, opt_subDirs = None\<rparr>
         \<lparr>scatterPlotItems = []\<rparr>
       = (Inl (Exception ''No data found in scan scan2.''), \<lparr>scatterPlotItems = []\<rparr>)"
proof -
  have h: "hasPosition emptyDir = False" by (simp add: hasPosition_def emptyDir_def)
  have n: "fullName emptyScanDir = ''scan2''" by (simp add: emptyScanDir_def)
  show ?thesis
    using ScanCanvasItem_init_missing_data
            [of "\<lparr>opt_handle = None, opt_name = None, opt_subDirs = None\<rparr>"
                "\<lparr>scatterPlotItems = []\<rparr>"]
          ScanCanvasItem_init_missing_data
            [of "\<lparr>opt_handle = Some emptyScanDir, opt_name = None, opt_subDirs = None\<rparr>"
                "\<lparr>scatterPlotItems = []\<rparr>",
             THEN conjunct2, rule_format, of emptyScanDir "[emptyDir]"]
          selectDirs_emptyScanDir h n
    by simp
qed

text \<open>When a selected directory has a position, the item is built and one scatter-plot item is created.\<close>

lemma ScanCanvasItem_init_scanDir:
  "snd (ScanCanvasItem_init \<lparr>opt_handle = Some scanDir, opt_name = None, opt_subDirs = None\<rparr>
          \<lparr>scatterPlotItems = []\<rparr>)
     = \<lparr>scatterPlotItems = [collectSpots [spotDir, emptyDir]]\<rparr>
   \<and> length (collectSpots [spotDir, emptyDir]) = 1"
  by (simp add: ScanCanvasItem_init_def selectDirs_def scanDir_def spotDir_def emptyDir_def
        Let_def)

subsection \<open>Handle moves on the example ROI\<close>

lemma exampleROI_fields [simp]:
  "state exampleROI = \<lparr>pos = Point 1 1, size' = Point 2 2, angle = 0\<rparr>"
  "handles exampleROI =
     [\<lparr>htype = Ht, hpos = Point (1/2) (1/2), center = None, lockAspect = None,
       itemPos = Point 1 1, isChild = True\<rparr>,
      \<lparr>htype = Hs, hpos = Point 1 1, center = Some (Point 0 0), lockAspect = Some False,
       itemPos = Point 2 2, isChild = True\<rparr>,
      \<lparr>htype = Hr, hpos = Point 1 0, center = Some (Point 0 0), lockAspect = None,
       itemPos = Point 2 0, isChild = True\<rparr>,
      \<lparr>htype = Hsr, hpos = Point 1 (1/2), center = Some (Point (1/2) (1/2)), lockAspect = None,
       itemPos = Point 2 1, isChild = True\<rparr>]"
  "invertible exampleROI = False"
  "maxBounds exampleROI = Some (mkRect (-10) (-10) 20 20)"
  "snapSize exampleROI = Some 1"
  "translateSnap exampleROI = False"
  "rotateSnap exampleROI = True"
  "scaleSnap exampleROI = False"
  "aspectLocked exampleROI = False"
  "rotateAllowed exampleROI = True"
  by (simp_all add: exampleROI_def baseROI_def addRotateHandle_def addScaleHandle_def
        addTranslateHandle_def Point_mul_def)

lemma held_none [simp]: "held 0 m = False"
  by (simp add: held_def)

lemma unrotated_maps:
  assumes "angle (state roi) = 0"
  shows "mapToParent roi p = Point_add p (pos (state roi))"
    and "mapFromParent roi p = Point_sub p (pos (state roi))"
    and "mapSceneToParent roi p = p"
    and "mapToScene roi p = Point_add p (pos (state roi))"
    and "mapFromScene roi p = Point_sub p (pos (state roi))"
  using assms
  by (simp_all add: mapToParent_def mapFromParent_def mapSceneToParent_def mapToScene_def
        mapFromScene_def Point_add_def Point_sub_def)

lemma unrotated_localPoints:
  assumes "angle (state roi) = 0"
  shows "localPoints roi h c pt =
           (Point_sub (Point_mul (hpos h) (size' (state roi))) (Point_mul c (size' (state roi))),
            Point_sub (Point_sub pt (pos (state roi))) (Point_mul c (size' (state roi))))"
  using assms
  by (simp add: localPoints_def unrotated_maps Point_add_def Point_sub_def Let_def)

lemma movePoint_s_applied:
  assumes "i < length (handles roi)" "htype (handles roi ! i) = Hs"
    and "scaleNewState roi (handles roi ! i) pt m = Inr ns" "\<not> outOfBounds roi ns"
  shows "movePoint roi i pt m f
           = Inr (stateChanged (setSize (setPos roi (pos ns) False True) (size' ns) False True) f)"
  using assms by (simp add: movePoint_def movePoint_branch_def movePoint_s_def)

lemma movePoint_r_applied:
  assumes "i < length (handles roi)" "htype (handles roi ! i) = Hr"
    and "rotateNewState roi (handles roi ! i) pt m = Inr (Some ns)" "\<not> outOfBounds roi ns"
  shows "movePoint roi i pt m f
           = Inr (stateChanged (setAngle (setPos roi (pos ns) False True) (angle ns) False True) f)"
  using assms by (simp add: movePoint_def movePoint_branch_def movePoint_r_def)

lemma example_scale_far:
  "scaleNewState exampleROI (handles exampleROI ! 1) (Point 40 5) 0
     = Inr \<lparr>pos = Point 1 1, size' = Point 39 4, angle = 0\<rparr>"
  by (simp add: scaleNewState_def scaleNewSize_def unrotated_localPoints unrotated_maps
        scaleSnapPoint_def lockAspectPoint_def Point_div_def correctSize_def
        Point_sub_def Point_mul_def Point_add_def Let_def)

lemma example_scale_back:
  "scaleNewState exampleROI (handles exampleROI ! 1) (Point 0 5) 0
     = Inr \<lparr>pos = Point 1 1, size' = Point 2 4, angle = 0\<rparr>"
  by (simp add: scaleNewState_def scaleNewSize_def unrotated_localPoints unrotated_maps
        scaleSnapPoint_def lockAspectPoint_def Point_div_def correctSize_def
        Point_sub_def Point_mul_def Point_add_def Let_def)

subsection \<open>A quarter turn on the example ROI\<close>

lemma Point_length_axis [simp]:
  "Point_length (Point 2 0) = 2" "Point_length (Point 0 2) = 2"
  by (simp_all add: Point_length_def)

lemma Point_angle_quarter: "Point_angle (Point 2 0) (Point 0 2) = Some (-90)"
  by (simp add: Point_angle_def Point_dot_def Point_cross_def clip_def)

lemma py_round_6: "py_round 6 = 6"
  by (simp add: py_round_def)

lemma example_rotate:
  "rotateNewState exampleROI (handles exampleROI ! 2) (Point 1 3) 0
     = Inr (Some \<lparr>pos = Point 1 1, size' = Point 2 2, angle = 90\<rparr>)"
  by (simp add: rotateNewState_def unrotated_localPoints unrotated_maps newAngle_def
        snapAngle_def Point_angle_quarter py_round_6 mapPoint_def rotation_def
        Point_sub_def Point_mul_def Point_add_def Let_def)

lemma stateRect_quarter:
  "stateRect \<lparr>pos = Point 1 1, size' = Point 2 2, angle = 90\<rparr> = mkRect 1 (-1) 2 2"
  by (simp add: stateRect_def rotation_def sina_def cosa_def mapRect_def mapPoint_def
        min4_def max4_def adjusted_def Let_def)

lemma example_in_bounds:
  "\<not> outOfBounds exampleROI \<lparr>pos = Point 1 1, size' = Point 2 2, angle = 90\<rparr>"
  "\<not> outOfBounds exampleROI \<lparr>pos = Point 1 1, size' = Point 2 4, angle = 0\<rparr>"
  "outOfBounds exampleROI \<lparr>pos = Point 1 1, size' = Point 39 4, angle = 0\<rparr>"
  by (simp_all add: outOfBounds_def stateRect_quarter stateRect_unrotated rect_contains_mkRect)

subsection \<open>Witnesses for the handle moves\<close>

lemma example_scale_back_move:
  "movePoint exampleROI 1 (Point 0 5) 0 True
     = Inr (stateChanged (setSize (setPos exampleROI (Point 1 1) False True)
                                  (Point 2 4) False True) True)"
  using movePoint_s_applied [of 1 exampleROI "Point 0 5" 0
          "\<lparr>pos = Point 1 1, size' = Point 2 4, angle = 0\<rparr>" True]
        example_scale_back example_in_bounds(2)
  by simp

lemma example_rotate_move:
  "movePoint exampleROI 2 (Point 1 3) 0 True
     = Inr (stateChanged (setAngle (setPos exampleROI (Point 1 1) False True)
                                   90 False True) True)"
  using movePoint_r_applied [of 2 exampleROI "Point 1 3" 0
          "\<lparr>pos = Point 1 1, size' = Point 2 2, angle = 90\<rparr>" True]
        example_rotate example_in_bounds(1)
  by simp

lemma example_translate_move:
  "\<exists>r. movePoint exampleROI 0 (Point 3 3) 0 True = Inr r"
  by (simp add: movePoint_def movePoint_branch_def movePoint_t_def translate_def
        snappedPos_def Let_def)

theorem movePoint_out_of_bounds_atomic_witness:
  "1 < length (handles exampleROI)
   \<and> maxBounds exampleROI = Some (mkRect (-10) (-10) 20 20)
   \<and> htype (handles exampleROI ! 1) = Hs
   \<and> proposal exampleROI (handles exampleROI ! 1) (Point 40 5) 0
       = Inr (Some \<lparr>pos = Point 1 1, size' = Point 39 4, angle = 0\<rparr>)
   \<and> rect_contains (mkRect (-10) (-10) 20 20)
         (stateRect \<lparr>pos = Point 1 1, size' = Point 39 4, angle = 0\<rparr>) = False
   \<and> (\<exists>roi'. movePoint exampleROI 1 (Point 40 5) 0 True = Inr roi'
              \<and> state roi' = state exampleROI)"
proof -
  have l: "1 < length (handles exampleROI)" by simp
  have m: "maxBounds exampleROI = Some (mkRect (-10) (-10) 20 20)" by simp
  have t: "htype (handles exampleROI ! 1) \<in> {Hs, Hr, Hrf, Hsr}" by simp
  have p: "proposal exampleROI (handles exampleROI ! 1) (Point 40 5) 0
       = Inr (Some \<lparr>pos = Point 1 1, size' = Point 39 4, angle = 0\<rparr>)"
    using example_scale_far by (simp add: proposal_def)
  have c: "\<not> rect_contains (mkRect (-10) (-10) 20 20)
         (stateRect \<lparr>pos = Point 1 1, size' = Point 39 4, angle = 0\<rparr>)"
    by (simp add: stateRect_unrotated rect_contains_mkRect)
  show ?thesis
    using movePoint_out_of_bounds_atomic [OF l m t p c, of True] l m p c by simp
qed

theorem scale_move_size_nonnegative_witness:
  "invertible exampleROI = False
   \<and> 0 \<le> px (size' (state exampleROI)) \<and> 0 \<le> py (size' (state exampleROI))
   \<and> htype (handles exampleROI ! 1) = Hs
   \<and> (\<exists>r. movePoint exampleROI 1 (Point 0 5) 0 True = Inr r
          \<and> size' (state r) = Point 2 4
          \<and> 0 \<le> px (size' (state r)) \<and> 0 \<le> py (size' (state r)))"
proof -
  obtain r where r: "movePoint exampleROI 1 (Point 0 5) 0 True = Inr r"
    and s: "size' (state r) = Point 2 4"
    using example_scale_back_move by simp
  have "0 \<le> px (size' (state r)) \<and> 0 \<le> py (size' (state r))"
    using scale_move_size_nonnegative [of exampleROI 1 "Point 0 5" 0 True r] r by simp
  then show ?thesis using r s by simp
qed

subsection \<open>Clamping of ROIs that are not inverted\<close>

text \<open>
  What \<^verbatim>\<open>translate\<close> does guarantee: when the size of the ROI is not negative and its
  state rectangle is no wider and no higher than \<^verbatim>\<open>maxBounds\<close>, the state rectangle
  after the call lies inside \<^verbatim>\<open>maxBounds\<close>, whatever the angle, the requested move and
  the snapping.
\<close>

lemma min4_le_max4: "min4 a b c d \<le> max4 a b c d"
  by (simp add: min4_def max4_def min_def max_def)

lemma mapRect_extent_nonneg:
  assumes "0 \<le> rw r" "0 \<le> rh r"
  shows "0 \<le> rw (mapRect t r) \<and> 0 \<le> rh (mapRect t r)"
  using assms min4_le_max4
  by (simp add: mapRect_def Let_def)

lemma stateRect_parts:
  "rx (stateRect st) = rx (stateRect (st\<lparr>pos := Point 0 0\<rparr>)) + px (pos st)"
  "ry (stateRect st) = ry (stateRect (st\<lparr>pos := Point 0 0\<rparr>)) + py (pos st)"
  "rw (stateRect st) = rw (stateRect (st\<lparr>pos := Point 0 0\<rparr>))"
  "rh (stateRect st) = rh (stateRect (st\<lparr>pos := Point 0 0\<rparr>))"
  by (simp_all add: stateRect_def adjusted_def Let_def)

lemma stateRect_extent_nonneg:
  assumes "0 \<le> px (size' st)" "0 \<le> py (size' st)"
  shows "0 \<le> rw (stateRect st) \<and> 0 \<le> rh (stateRect st)"
  using mapRect_extent_nonneg [of "mkRect 0 0 (px (size' st)) (py (size' st))"
          "rotation (- angle st)"] assms
  by (simp add: stateRect_def adjusted_def Let_def)

lemma clamp_axis:
  fixes l w lo hi :: real
  assumes "0 \<le> w" "w \<le> hi - lo"
  defines "d \<equiv> (if lo > l then lo - l else if hi < l + w then hi - (l + w) else 0)"
  shows "lo \<le> l + d \<and> l + w + d \<le> hi"
  using assms by (auto simp: d_def)

lemma translate_keeps_normal_roi_in_bounds:
  assumes mb: "maxBounds roi = Some mb"
    and sz: "0 \<le> px (size' (state roi))" "0 \<le> py (size' (state roi))"
    and fits: "rw (stateRect (state roi)) \<le> rw mb" "rh (stateRect (state roi)) \<le> rh mb"
    and tr: "translate roi d sn u f = Inr roi'"
  shows "rect_left mb \<le> rect_left (stateRect (state roi'))
       \<and> rect_left (stateRect (state roi')) \<le> rect_right (stateRect (state roi'))
       \<and> rect_right (stateRect (state roi')) \<le> rect_right mb
       \<and> rect_top mb \<le> rect_top (stateRect (state roi'))
       \<and> rect_top (stateRect (state roi')) \<le> rect_bottom (stateRect (state roi'))
       \<and> rect_bottom (stateRect (state roi')) \<le> rect_bottom mb"
proof -
  obtain p where p: "snappedPos roi d sn = Inr p"
    using tr by (auto simp: translate_def split: sum.splits)
  define ns where "ns = (state roi)\<lparr>pos := p\<rparr>"
  define r where "r = stateRect ns"
  have st: "state roi' = ns\<lparr>pos := Point_add p (boundsShift mb r)\<rparr>"
    using tr p mb by (auto simp: translate_def ns_def r_def Let_def)
  have w: "rw r = rw (stateRect (state roi))" "rh r = rh (stateRect (state roi))"
    unfolding r_def ns_def
    by (subst stateRect_parts, subst (2) stateRect_parts, simp)+
  have nn: "0 \<le> rw r \<and> 0 \<le> rh r"
    unfolding r_def using stateRect_extent_nonneg [of ns] sz by (simp add: ns_def)
  have r': "rx (stateRect (state roi')) = rx r + px (boundsShift mb r)"
           "ry (stateRect (state roi')) = ry r + py (boundsShift mb r)"
           "rw (stateRect (state roi')) = rw r" "rh (stateRect (state roi')) = rh r"
    unfolding st r_def
    by (subst stateRect_parts, subst (2) stateRect_parts,
        simp add: ns_def Point_add_def)+
  have x: "rx mb \<le> rx r + px (boundsShift mb r)
           \<and> rx r + rw r + px (boundsShift mb r) \<le> rx mb + rw mb"
    using clamp_axis [of "rw r" "rx mb + rw mb" "rx mb" "rx r"] nn w fits
    by (simp add: boundsShift_def rect_left_def rect_right_def)
  have y: "ry mb \<le> ry r + py (boundsShift mb r)
           \<and> ry r + rh r + py (boundsShift mb r) \<le> ry mb + rh mb"
    using clamp_axis [of "rh r" "ry mb + rh mb" "ry mb" "ry r"] nn w fits
    by (simp add: boundsShift_def rect_top_def rect_bottom_def)
  show ?thesis
    using x y nn r'
    by (simp add: rect_left_def rect_right_def rect_top_def rect_bottom_def)
qed

subsection \<open>The center point of a handle\<close>

lemma rotation_no_translation [simp]: "tdx (rotation a) = 0" "tdy (rotation a) = 0"
  by (simp_all add: rotation_def identityT_def)

lemma mapToParent_state:
  "mapToParent roi p =
     Point (m11 (rotation (angle (state roi))) * px p + m21 (rotation (angle (state roi))) * py p
              + px (pos (state roi)))
           (m12 (rotation (angle (state roi))) * px p + m22 (rotation (angle (state roi))) * py p
              + py (pos (state roi)))"
  by (simp add: mapToParent_def mapPoint_def Point_add_def)

text \<open>A scale-handle move keeps the scene position of the handle's center point.\<close>

lemma scaleNewState_center_fixed:
  assumes "scaleNewState roi h pt m = Inr ns" "center h = Some c"
  shows "mapToParent (roi\<lparr>state := ns\<rparr>) (Point_mul c (size' ns))
           = mapToParent roi (Point_mul c (size' (state roi)))"
  using assms
  by (auto simp: scaleNewState_def mapToParent_state Point_mul_def Point_sub_def Point_add_def
        Let_def algebra_simps split: sum.splits)

text \<open>A rotate-handle move keeps the scene position of the handle's center point.\<close>

lemma rotateNewState_center_fixed:
  assumes "rotateNewState roi h pt m = Inr (Some ns)" "center h = Some c"
  shows "mapToParent (roi\<lparr>state := ns\<rparr>) (Point_mul c (size' ns))
           = mapToParent roi (Point_mul c (size' (state roi)))"
  using assms
  by (auto simp: rotateNewState_def mapToParent_state mapPoint_def Point_mul_def Point_sub_def
        Point_add_def Let_def algebra_simps split: sum.splits if_splits)

text \<open>A negative component of the computed size is replaced by the previous one.\<close>

lemma correctSize_replaces_negative:
  assumes "\<not> invertible roi"
  shows "py n < 0 \<Longrightarrow> py (correctSize roi old n) = py old"
    and "px n < 0 \<Longrightarrow> \<not> aspectLocked roi \<Longrightarrow> px (correctSize roi old n) = px old"
  using assms by (simp_all add: correctSize_def Let_def)

subsection \<open>Effects of the handle kinds\<close>

lemma mapToParent_cong_state:
  "state r1 = state r2 \<Longrightarrow> mapToParent r1 p = mapToParent r2 p"
  by (simp add: mapToParent_def)

lemma movePoint_s_state:
  assumes "movePoint roi i pt modifiers finish = Inr roi'" "htype (handles roi ! i) = Hs"
  shows "state roi' = state roi \<or>
         (\<exists>ns. scaleNewState roi (handles roi ! i) pt modifiers = Inr ns \<and> state roi' = ns)"
  using assms
  by (auto simp: movePoint_def movePoint_branch_def movePoint_s_def scaleNewState_def Let_def
           split: sum.splits flow.splits if_splits option.splits)

lemma movePoint_r_state:
  assumes "movePoint roi i pt modifiers finish = Inr roi'" "htype (handles roi ! i) = Hr"
  shows "state roi' = state roi \<or>
         (\<exists>ns. rotateNewState roi (handles roi ! i) pt modifiers = Inr (Some ns) \<and> state roi' = ns)"
proof (cases "rotateNewState roi (handles roi ! i) pt modifiers")
  case (Inl e)
  then show ?thesis using assms
    by (auto simp: movePoint_def movePoint_branch_def movePoint_r_def split: if_splits)
next
  case (Inr o1)
  show ?thesis
  proof (cases o1)
    case None
    then show ?thesis using assms Inr
      by (auto simp: movePoint_def movePoint_branch_def movePoint_r_def split: if_splits)
  next
    case (Some ns)
    have "size' ns = size' (state roi)" using rotateNewState_size Inr Some by blast
    then show ?thesis using assms Inr Some
      by (auto simp: movePoint_def movePoint_branch_def movePoint_r_def Let_def
               split: if_splits)
  qed
qed

text \<open>
  Claim C4. In \<^verbatim>\<open>movePoint\<close>, a translate handle changes neither size nor angle; a
  scale handle never changes the angle and a rotate handle never changes the size, and
  both leave the handle's center point where it was in the parent's coordinates.
\<close>

theorem movePoint_handle_effects:
  assumes "movePoint roi i pt modifiers finish = Inr roi'"
  shows "(htype (handles roi ! i) = Ht \<longrightarrow>
            size' (state roi') = size' (state roi) \<and> angle (state roi') = angle (state roi))
       \<and> (htype (handles roi ! i) = Hs \<longrightarrow>
            angle (state roi') = angle (state roi)
            \<and> (\<forall>c. center (handles roi ! i) = Some c \<longrightarrow>
                  mapToParent roi' (Point_mul c (size' (state roi')))
                    = mapToParent roi (Point_mul c (size' (state roi)))))
       \<and> (htype (handles roi ! i) = Hr \<longrightarrow>
            size' (state roi') = size' (state roi)
            \<and> (\<forall>c. center (handles roi ! i) = Some c \<longrightarrow>
                  mapToParent roi' (Point_mul c (size' (state roi')))
                    = mapToParent roi (Point_mul c (size' (state roi)))))"
proof -
  have s: "mapToParent roi' (Point_mul c (size' (state roi')))
             = mapToParent roi (Point_mul c (size' (state roi)))"
    if "htype (handles roi ! i) = Hs" "center (handles roi ! i) = Some c" for c
    using movePoint_s_state [OF assms that(1)]
  proof
    assume "state roi' = state roi"
    then show ?thesis by (simp add: mapToParent_def)
  next
    assume "\<exists>ns. scaleNewState roi (handles roi ! i) pt modifiers = Inr ns \<and> state roi' = ns"
    then obtain ns where ns: "scaleNewState roi (handles roi ! i) pt modifiers = Inr ns"
      and st: "state roi' = ns" by blast
    have "mapToParent roi' (Point_mul c (size' ns))
            = mapToParent (roi\<lparr>state := ns\<rparr>) (Point_mul c (size' ns))"
      using st by (intro mapToParent_cong_state) simp
    then show ?thesis using scaleNewState_center_fixed [OF ns that(2)] st by simp
  qed
  have r: "mapToParent roi' (Point_mul c (size' (state roi')))
             = mapToParent roi (Point_mul c (size' (state roi)))"
    if "htype (handles roi ! i) = Hr" "center (handles roi ! i) = Some c" for c
    using movePoint_r_state [OF assms that(1)]
  proof
    assume "state roi' = state roi"
    then show ?thesis by (simp add: mapToParent_def)
  next
    assume "\<exists>ns. rotateNewState roi (handles roi ! i) pt modifiers = Inr (Some ns)
                 \<and> state roi' = ns"
    then obtain ns where ns: "rotateNewState roi (handles roi ! i) pt modifiers = Inr (Some ns)"
      and st: "state roi' = ns" by blast
    have "mapToParent roi' (Point_mul c (size' ns))
            = mapToParent (roi\<lparr>state := ns\<rparr>) (Point_mul c (size' ns))"
      using st by (intro mapToParent_cong_state) simp
    then show ?thesis using rotateNewState_center_fixed [OF ns that(2)] st by simp
  qed
  show ?thesis using movePoint_frame_parts [OF assms] s r by blast
qed

theorem movePoint_handle_effects_witness:
  "(\<exists>r. movePoint exampleROI 0 (Point 3 3) 0 True = Inr r
        \<and> size' (state r) = size' (state exampleROI) \<and> angle (state r) = angle (state exampleROI))
   \<and> (\<exists>r. movePoint exampleROI 1 (Point 0 5) 0 True = Inr r
        \<and> size' (state r) = Point 2 4 \<and> angle (state r) = angle (state exampleROI)
        \<and> mapToParent r (Point_mul (Point 0 0) (size' (state r)))
            = mapToParent exampleROI (Point_mul (Point 0 0) (size' (state exampleROI))))
   \<and> (\<exists>r. movePoint exampleROI 2 (Point 1 3) 0 True = Inr r
        \<and> angle (state r) = 90 \<and> size' (state r) = size' (state exampleROI)
        \<and> mapToParent r (Point_mul (Point 0 0) (size' (state r)))
            = mapToParent exampleROI (Point_mul (Point 0 0) (size' (state exampleROI))))"
proof -
  obtain r0 where r0: "movePoint exampleROI 0 (Point 3 3) 0 True = Inr r0"
    using example_translate_move by blast
  obtain r1 where r1: "movePoint exampleROI 1 (Point 0 5) 0 True = Inr r1"
    and s1: "size' (state r1) = Point 2 4"
    using example_scale_back_move by simp
  obtain r2 where r2: "movePoint exampleROI 2 (Point 1 3) 0 True = Inr r2"
    and s2: "angle (state r2) = 90"
    using example_rotate_move by simp
  have c1: "center (handles exampleROI ! 1) = Some (Point 0 0)"
    and c2: "center (handles exampleROI ! 2) = Some (Point 0 0)" by simp_all
  have t1: "htype (handles exampleROI ! 1) = Hs" and t2: "htype (handles exampleROI ! 2) = Hr"
    and t0: "htype (handles exampleROI ! 0) = Ht" by simp_all
  note e0 = movePoint_handle_effects [OF r0, THEN conjunct1, rule_format, OF t0]
  note e1 = movePoint_handle_effects [OF r1, THEN conjunct2, THEN conjunct1, rule_format, OF t1]
  note e2 = movePoint_handle_effects [OF r2, THEN conjunct2, THEN conjunct2, rule_format, OF t2]
  have m1: "mapToParent r1 (Point_mul (Point 0 0) (size' (state r1)))
            = mapToParent exampleROI (Point_mul (Point 0 0) (size' (state exampleROI)))"
    using e1 c1 by blast
  have m2: "mapToParent r2 (Point_mul (Point 0 0) (size' (state r2)))
            = mapToParent exampleROI (Point_mul (Point 0 0) (size' (state exampleROI)))"
    using e2 c2 by blast
  have a1: "angle (state r1) = angle (state exampleROI)" using e1 by blast
  have z2: "size' (state r2) = size' (state exampleROI)" using e2 by blast
  show ?thesis
    using e0 r0 r1 r2 s1 s2 m1 m2 a1 z2 by blast
qed

subsection \<open>Index bounds of a slice\<close>

text \<open>
  What \<^verbatim>\<open>getArraySlice\<close> does guarantee: the start indices are not negative and the stop
  indices are at most one more than the length of their axis.
\<close>

lemma lo_le_hi: "lo_x r \<le> hi_x r" "lo_y r \<le> hi_y r"
  by (simp_all add: lo_x_def hi_x_def lo_y_def hi_y_def)

lemma lo_hi_data_rect:
  assumes "0 \<le> w" "0 \<le> h"
  shows "lo_x (mkRect 0 0 w h) = 0" "hi_x (mkRect 0 0 w h) = w"
        "lo_y (mkRect 0 0 w h) = 0" "hi_y (mkRect 0 0 w h) = h"
  using assms by (simp_all add: lo_x_def hi_x_def lo_y_def hi_y_def)

lemma rect_intersect_inside:
  assumes "0 \<le> w" "0 \<le> h" "R = rect_intersect X (mkRect 0 0 w h)"
  shows "0 \<le> rect_left R \<and> rect_left R \<le> rect_right R \<and> rect_right R \<le> w
       \<and> 0 \<le> rect_top R \<and> rect_top R \<le> rect_bottom R \<and> rect_bottom R \<le> h"
proof (cases "R = mkRect 0 0 0 0")
  case True
  then show ?thesis using assms(1,2) by simp
next
  case False
  then have R: "R = mkRect (max (lo_x X) 0) (max (lo_y X) 0)
                     (min (hi_x X) w - max (lo_x X) 0) (min (hi_y X) h - max (lo_y X) 0)"
    and c: "lo_x X < w" "0 < hi_x X" "lo_y X < h" "0 < hi_y X"
    using assms(3) lo_hi_data_rect [OF assms(1,2)]
    by (simp_all add: rect_intersect_def split: if_splits)
  show ?thesis
    using c lo_le_hi [of X] assms(1,2) unfolding R by simp
qed

lemma py_int_bounds:
  assumes "0 \<le> l" "l \<le> r" "r \<le> real n"
  shows "0 \<le> py_int (min l r)" and "py_int (1 + max l r) \<le> int n + 1"
proof -
  show "0 \<le> py_int (min l r)" using assms by (simp add: py_int_def)
  have "\<lfloor>1 + r\<rfloor> \<le> \<lfloor>1 + real n\<rfloor>" using assms(3) by (intro floor_mono) simp
  also have "\<dots> = int n + 1" by simp
  finally show "py_int (1 + max l r) \<le> int n + 1"
    using assms by (simp add: py_int_def max_def)
qed

lemma getArraySlice_bounds:
  assumes "getArraySlice roi (d0, d1) tr0 imgSize = Inr (((a0, b0), (a1, b1)), tr)"
  shows "0 \<le> a0 \<and> b0 \<le> int d0 + 1 \<and> 0 \<le> a1 \<and> b1 \<le> int d1 + 1"
proof -
  have "\<exists>X. indexBounds (rect_intersect X (mkRect 0 0 (real d0) (real d1)))
             = ((a0, b0), (a1, b1))"
    using assms by (auto simp: getArraySlice_def Let_def split: sum.splits)
  then obtain X where b: "((a0, b0), (a1, b1))
      = indexBounds (rect_intersect X (mkRect 0 0 (real d0) (real d1)))"
    by metis
  define R where "R = rect_intersect X (mkRect 0 0 (real d0) (real d1))"
  have R: "0 \<le> rect_left R \<and> rect_left R \<le> rect_right R \<and> rect_right R \<le> real d0
       \<and> 0 \<le> rect_top R \<and> rect_top R \<le> rect_bottom R \<and> rect_bottom R \<le> real d1"
    by (rule rect_intersect_inside [OF _ _ R_def]) simp_all
  have "a0 = py_int (min (rect_left R) (rect_right R))"
       "b0 = py_int (1 + max (rect_left R) (rect_right R))"
       "a1 = py_int (min (rect_top R) (rect_bottom R))"
       "b1 = py_int (1 + max (rect_top R) (rect_bottom R))"
    using b by (simp_all add: indexBounds_def R_def min.commute max.commute)
  then show ?thesis
    using py_int_bounds [of "rect_left R" "rect_right R" d0]
          py_int_bounds [of "rect_top R" "rect_bottom R" d1] R
    by simp
qed

subsection \<open>Rotation snapping\<close>

lemma Point_angle_defined:
  assumes "Point_length a \<noteq> 0" "Point_length b \<noteq> 0"
  shows "\<exists>v. Point_angle a b = Some v"
  using assms by (simp add: Point_angle_def Let_def)

lemma newAngle_snapped:
  assumes "rotateSnap roi \<or> held modifiers ControlModifier" "Point_angle lp0 lp1 = Some a"
  shows "newAngle roi modifiers lp0 lp1 = Inr (py_round ((angle (state roi) - a) / 15) * 15)"
  using assms by (auto simp: newAngle_def snapAngle_def)

lemma py_round_times_15: "\<exists>k::int. py_round v * 15 = 15 * of_int k"
proof -
  obtain n :: int where "py_round v = of_int n"
    unfolding py_round_def by (cases "0 \<le> v") auto
  then show ?thesis by auto
qed

lemma rotate_move_result:
  assumes "i < length (handles roi)"
    and "htype (handles roi ! i) = Hr \<or> htype (handles roi ! i) = Hrf"
    and "rotateNewState roi (handles roi ! i) pt modifiers = Inr (Some ns)"
  shows "\<exists>roi'. movePoint roi i pt modifiers finish = Inr roi'
               \<and> state roi' = (if outOfBounds roi ns then state roi else ns)"
proof -
  have sz: "size' ns = size' (state roi)" using rotateNewState_size assms(3) by blast
  show ?thesis
    using assms sz
    by (auto simp: movePoint_def movePoint_branch_def movePoint_r_def Let_def)
qed

lemma scaleRotate_move_result:
  assumes "i < length (handles roi)"
    and "htype (handles roi ! i) = Hsr"
    and "scaleRotateNewState roi (handles roi ! i) pt modifiers = Inr (Some ns)"
  shows "\<exists>roi'. movePoint roi i pt modifiers finish = Inr roi'
               \<and> state roi' = (if outOfBounds roi ns then state roi else ns)"
  using assms
  by (auto simp: movePoint_def movePoint_branch_def movePoint_sr_def dictOf_def)

lemma scaleRotate_move_error:
  assumes "i < length (handles roi)"
    and "htype (handles roi ! i) = Hsr"
    and "scaleRotateNewState roi (handles roi ! i) pt modifiers = Inl e"
  shows "movePoint roi i pt modifiers finish = Inl e"
  using assms
  by (simp add: movePoint_def movePoint_branch_def movePoint_sr_def)

text \<open>
  Claim C3. Take a rotate, free-rotate or scale-rotate handle with a center, with
  \<^verbatim>\<open>rotateSnap\<close> on or Control held, rotation allowed (the scale-rotate branch does not
  ask), and old and requested handle positions \<open>lp0\<close>, \<open>lp1\<close> that are not on the
  center. Then \<^verbatim>\<open>lp0.angle(lp1)\<close> is a number \<open>a\<close>, and \<^verbatim>\<open>movePoint\<close> proposes a state
  whose angle is \<open>round((angle - a) / 15) * 15\<close>, a multiple of 15. It returns with that
  state written, or with the state as it was when \<^verbatim>\<open>maxBounds\<close> does not contain the
  proposed state. The one other outcome is that the size computation of the scale-rotate
  branch raises, and then \<^verbatim>\<open>movePoint\<close> raises the same exception.
\<close>

theorem rotate_snap_writes_multiple_of_15:
  assumes len: "i < length (handles roi)"
    and ty: "htype (handles roi ! i) \<in> {Hr, Hrf, Hsr}"
    and cen: "center (handles roi ! i) = Some c"
    and snap: "rotateSnap roi \<or> held modifiers ControlModifier"
    and allowed: "htype (handles roi ! i) = Hsr \<or> rotateAllowed roi"
    and l0: "Point_length (fst (localPoints roi (handles roi ! i) c pt)) \<noteq> 0"
    and l1: "Point_length (snd (localPoints roi (handles roi ! i) c pt)) \<noteq> 0"
  shows "\<exists>a. Point_angle (fst (localPoints roi (handles roi ! i) c pt))
                          (snd (localPoints roi (handles roi ! i) c pt)) = Some a
           \<and> ((\<exists>e. htype (handles roi ! i) = Hsr
                   \<and> scaleRotateSize roi (handles roi ! i) c
                        (snd (localPoints roi (handles roi ! i) c pt)) = Inl e
                   \<and> movePoint roi i pt modifiers finish = Inl e)
              \<or> (\<exists>ns roi'. proposal roi (handles roi ! i) pt modifiers = Inr (Some ns)
                   \<and> angle ns = py_round ((angle (state roi) - a) / 15) * 15
                   \<and> (\<exists>k::int. angle ns = 15 * of_int k)
                   \<and> movePoint roi i pt modifiers finish = Inr roi'
                   \<and> state roi' = (if outOfBounds roi ns then state roi else ns)))"
proof -
  define h where "h = handles roi ! i"
  define lp0 where "lp0 = fst (localPoints roi h c pt)"
  define lp1 where "lp1 = snd (localPoints roi h c pt)"
  obtain a where a: "Point_angle lp0 lp1 = Some a"
    using Point_angle_defined l0 l1 unfolding lp0_def lp1_def h_def by blast
  define ang where "ang = py_round ((angle (state roi) - a) / 15) * 15"
  have na: "newAngle roi modifiers lp0 lp1 = Inr ang"
    unfolding ang_def by (rule newAngle_snapped [OF snap a])
  obtain k :: int where k: "ang = 15 * of_int k"
    unfolding ang_def using py_round_times_15 by blast
  consider (rot) "htype h = Hr \<or> htype h = Hrf" | (sr) "htype h = Hsr"
    using ty unfolding h_def by auto
  then have "(\<exists>e. htype h = Hsr \<and> scaleRotateSize roi h c lp1 = Inl e
                   \<and> movePoint roi i pt modifiers finish = Inl e)
              \<or> (\<exists>ns roi'. proposal roi h pt modifiers = Inr (Some ns)
                   \<and> angle ns = ang \<and> (\<exists>k::int. angle ns = 15 * of_int k)
                   \<and> movePoint roi i pt modifiers finish = Inr roi'
                   \<and> state roi' = (if outOfBounds roi ns then state roi else ns))"
  proof cases
    case rot
    then have al: "rotateAllowed roi" using allowed unfolding h_def by auto
    obtain ns where ns: "rotateNewState roi h pt modifiers = Inr (Some ns)"
      and an: "angle ns = ang"
      using al cen l0 l1 na
      by (simp add: rotateNewState_def Let_def h_def lp0_def lp1_def)
    have p: "proposal roi h pt modifiers = Inr (Some ns)"
      using rot ns by (auto simp: proposal_def)
    obtain roi' where "movePoint roi i pt modifiers finish = Inr roi'"
      and "state roi' = (if outOfBounds roi ns then state roi else ns)"
      using rotate_move_result [OF len _ ns [unfolded h_def]] rot unfolding h_def by blast
    then show ?thesis using p an k by blast
  next
    case sr
    have p: "proposal roi h pt modifiers = scaleRotateNewState roi h pt modifiers"
      using sr by (simp add: proposal_def)
    show ?thesis
    proof (cases "scaleRotateSize roi h c lp1")
      case (Inl e)
      then have "scaleRotateNewState roi h pt modifiers = Inl e"
        using cen l0 l1 na
        by (simp add: scaleRotateNewState_def Let_def h_def lp0_def lp1_def)
      then have "movePoint roi i pt modifiers finish = Inl e"
        using scaleRotate_move_error [OF len] sr unfolding h_def by blast
      then show ?thesis using sr Inl by blast
    next
      case (Inr newSize)
      obtain ns where ns: "scaleRotateNewState roi h pt modifiers = Inr (Some ns)"
        and an: "angle ns = ang"
        using cen l0 l1 na Inr
        by (simp add: scaleRotateNewState_def Let_def h_def lp0_def lp1_def)
      obtain roi' where "movePoint roi i pt modifiers finish = Inr roi'"
        and "state roi' = (if outOfBounds roi ns then state roi else ns)"
        using scaleRotate_move_result [OF len _ ns [unfolded h_def]] sr unfolding h_def
        by blast
      then show ?thesis using p ns an k by auto
    qed
  qed
  then show ?thesis using a unfolding h_def lp0_def lp1_def ang_def by blast
qed

subsection \<open>Rotation snapping on a tilted ROI\<close>

lemma rotation_det: "m11 (rotation a) * m22 (rotation a) - m12 (rotation a) * m21 (rotation a) = 1"
proof -
  have "cosa a * cosa a + sina a * sina a = 1"
    using sin_cos_squared_add3 [of "a * pi / 180"]
    by (simp add: cosa_def sina_def add.commute)
  then show ?thesis by (simp add: rotation_def identityT_def)
qed

lemma inverted_rotation:
  "inverted (rotation a) =
     \<lparr>m11 = m22 (rotation a), m12 = - m12 (rotation a), m21 = - m21 (rotation a),
      m22 = m11 (rotation a), tdx = 0, tdy = 0\<rparr>"
  using rotation_det [of a] by (simp add: inverted_def Let_def)

lemma mapFromParent_mapToParent [simp]: "mapFromParent roi (mapToParent roi p) = p"
proof -
  define t where "t = rotation (angle (state roi))"
  have d: "m11 t * m22 t - m12 t * m21 t = 1" unfolding t_def by (rule rotation_det)
  have "m22 t * (m11 t * px p + m21 t * py p) - m21 t * (m12 t * px p + m22 t * py p)
          = (m11 t * m22 t - m12 t * m21 t) * px p"
    by (simp add: algebra_simps)
  then have x: "m22 t * (m11 t * px p + m21 t * py p) - m21 t * (m12 t * px p + m22 t * py p)
                = px p"
    unfolding d by simp
  have "m11 t * (m12 t * px p + m22 t * py p) - m12 t * (m11 t * px p + m21 t * py p)
          = (m11 t * m22 t - m12 t * m21 t) * py p"
    by (simp add: algebra_simps)
  then have y: "m11 t * (m12 t * px p + m22 t * py p) - m12 t * (m11 t * px p + m21 t * py p)
                = py p"
    unfolding d by simp
  show ?thesis
    using x y
    by (simp add: mapFromParent_def mapToParent_def inverted_rotation mapPoint_def
          Point_add_def Point_sub_def t_def)
qed

lemma localPoints_of_local:
  "localPoints roi h c (mapToParent roi q) =
     (Point_sub (Point_mul (hpos h) (size' (state roi))) (Point_mul c (size' (state roi))),
      Point_sub q (Point_mul c (size' (state roi))))"
  by (simp add: localPoints_def mapSceneToParent_def mapToScene_def mapFromScene_def Let_def)

lemma scaleRotateNewState_size:
  assumes "scaleRotateNewState roi h pt m = Inr (Some ns)" "center h = Some c"
    and "scaleRotateSize roi h c (snd (localPoints roi h c pt)) = Inr sz"
  shows "size' ns = sz"
  using assms
  by (auto simp: scaleRotateNewState_def Let_def split: if_splits sum.splits)

lemma tiltedROI_fields [simp]:
  "state tiltedROI = \<lparr>pos = Point 1 1, size' = Point 2 2, angle = 7\<rparr>"
  "handles tiltedROI =
     [\<lparr>htype = Hr, hpos = Point 1 0, center = Some (Point 0 0), lockAspect = None,
       itemPos = Point 2 0, isChild = True\<rparr>,
      \<lparr>htype = Hsr, hpos = Point 1 (1/2), center = Some (Point (1/2) (1/2)), lockAspect = None,
       itemPos = Point 2 1, isChild = True\<rparr>,
      \<lparr>htype = Hrf, hpos = Point 0 1, center = Some (Point 0 0), lockAspect = None,
       itemPos = Point 0 2, isChild = True\<rparr>]"
  "maxBounds tiltedROI = None"
  "snapSize tiltedROI = Some 1"
  "rotateSnap tiltedROI = True"
  "scaleSnap tiltedROI = False"
  "rotateAllowed tiltedROI = True"
  by (simp_all add: tiltedROI_def addRotateHandle_def addRotateFreeHandle_def Point_mul_def)

lemma Point_length_unit [simp]: "Point_length (Point 1 0) = 1"
  by (simp add: Point_length_def)

lemma Point_angle_examples:
  "Point_angle (Point 1 0) (Point 0 2) = Some (-90)"
  "Point_angle (Point 0 2) (Point 2 0) = Some 90"
  by (simp_all add: Point_angle_def Point_dot_def Point_cross_def clip_def)

lemma py_round_snap_examples:
  "py_round ((7 - (-90)) / 15) * 15 = 90" "py_round ((7 - 90) / 15) * 15 = -90"
  "py_round (97 / 15) = 6" "py_round (- (83 / 15)) = -6" "py_round (-83 / 15) = -6"
  by (simp_all add: py_round_def)

lemma held_Control [simp]: "held ControlModifier ControlModifier"
  by (simp add: held_def ControlModifier_def)

lemma tilted_localPoints:
  "localPoints tiltedROI (handles tiltedROI ! 0) (Point 0 0) (mapToParent tiltedROI (Point 0 2))
     = (Point 2 0, Point 0 2)"
  "localPoints tiltedROI (handles tiltedROI ! 1) (Point (1/2) (1/2))
       (mapToParent tiltedROI (Point 1 3))
     = (Point 1 0, Point 0 2)"
  "localPoints tiltedROI (handles tiltedROI ! 2) (Point 0 0) (mapToParent tiltedROI (Point 2 0))
     = (Point 0 2, Point 2 0)"
  by (simp_all add: localPoints_of_local Point_sub_def Point_mul_def)

lemma tilted_scaleRotateSize:
  "scaleRotateSize tiltedROI (handles tiltedROI ! 1) (Point (1/2) (1/2)) (Point 0 2)
     = Inr (Point 4 2)"
  by (simp add: scaleRotateSize_def getAxis_def setAxis_def py_div_def Let_def)

subsection \<open>Witness for rotation snapping\<close>

lemma tilted_unbounded [simp]: "outOfBounds tiltedROI ns = False"
  by (simp add: outOfBounds_def)

theorem rotate_snap_writes_multiple_of_15_witness:
  "rotateSnap tiltedROI \<and> angle (state tiltedROI) = 7
   \<and> htype (handles tiltedROI ! 0) = Hr
   \<and> py_round ((7 - (-90)) / 15) * 15 = 90
   \<and> (\<exists>r. movePoint tiltedROI 0 (mapToParent tiltedROI (Point 0 2)) 0 True = Inr r
          \<and> angle (state r) = 90)
   \<and> htype (handles tiltedROI ! 1) = Hsr \<and> held ControlModifier ControlModifier
   \<and> (\<exists>r. movePoint tiltedROI 1 (mapToParent tiltedROI (Point 1 3)) ControlModifier True = Inr r
          \<and> angle (state r) = 90 \<and> size' (state r) = Point 4 2)
   \<and> htype (handles tiltedROI ! 2) = Hrf
   \<and> py_round ((7 - 90) / 15) * 15 = -90
   \<and> (\<exists>r. movePoint tiltedROI 2 (mapToParent tiltedROI (Point 2 0)) 0 True = Inr r
          \<and> angle (state r) = -90)"
proof -
  have r: "\<exists>r. movePoint tiltedROI 0 (mapToParent tiltedROI (Point 0 2)) 0 True = Inr r
          \<and> angle (state r) = 90"
  proof -
    have len: "0 < length (handles tiltedROI)"
      and ty: "htype (handles tiltedROI ! 0) \<in> {Hr, Hrf, Hsr}"
      and cen: "center (handles tiltedROI ! 0) = Some (Point 0 0)"
      and sn: "rotateSnap tiltedROI \<or> held 0 ControlModifier"
      and al: "htype (handles tiltedROI ! 0) = Hsr \<or> rotateAllowed tiltedROI"
      and nsr: "htype (handles tiltedROI ! 0) \<noteq> Hsr"
      by simp_all
    have l0: "Point_length (fst (localPoints tiltedROI (handles tiltedROI ! 0) (Point 0 0)
                (mapToParent tiltedROI (Point 0 2)))) \<noteq> 0"
      and l1: "Point_length (snd (localPoints tiltedROI (handles tiltedROI ! 0) (Point 0 0)
                (mapToParent tiltedROI (Point 0 2)))) \<noteq> 0"
      unfolding tilted_localPoints by simp_all
    from rotate_snap_writes_multiple_of_15 [OF len ty cen sn al l0 l1, of True]
    obtain a ns roi' where "Point_angle (Point 2 0) (Point 0 2) = Some a"
      and "angle ns = py_round ((angle (state tiltedROI) - a) / 15) * 15"
      and "movePoint tiltedROI 0 (mapToParent tiltedROI (Point 0 2)) 0 True = Inr roi'"
      and "state roi' = (if outOfBounds tiltedROI ns then state tiltedROI else ns)"
      unfolding tilted_localPoints fst_conv snd_conv using nsr by blast
    then show ?thesis
      by (simp add: Point_angle_quarter py_round_snap_examples)
  qed
  have sr: "\<exists>r. movePoint tiltedROI 1 (mapToParent tiltedROI (Point 1 3)) ControlModifier True
                 = Inr r
          \<and> angle (state r) = 90 \<and> size' (state r) = Point 4 2"
  proof -
    have len: "1 < length (handles tiltedROI)"
      and ty: "htype (handles tiltedROI ! 1) \<in> {Hr, Hrf, Hsr}"
      and cen: "center (handles tiltedROI ! 1) = Some (Point (1/2) (1/2))"
      and sn: "rotateSnap tiltedROI \<or> held ControlModifier ControlModifier"
      and al: "htype (handles tiltedROI ! 1) = Hsr \<or> rotateAllowed tiltedROI"
      by simp_all
    have l0: "Point_length (fst (localPoints tiltedROI (handles tiltedROI ! 1)
                (Point (1/2) (1/2)) (mapToParent tiltedROI (Point 1 3)))) \<noteq> 0"
      and l1: "Point_length (snd (localPoints tiltedROI (handles tiltedROI ! 1)
                (Point (1/2) (1/2)) (mapToParent tiltedROI (Point 1 3)))) \<noteq> 0"
      unfolding tilted_localPoints by simp_all
    from rotate_snap_writes_multiple_of_15 [OF len ty cen sn al l0 l1, of True]
    obtain a ns roi' where "Point_angle (Point 1 0) (Point 0 2) = Some a"
      and an: "angle ns = py_round ((angle (state tiltedROI) - a) / 15) * 15"
      and p: "proposal tiltedROI (handles tiltedROI ! 1) (mapToParent tiltedROI (Point 1 3))
            ControlModifier = Inr (Some ns)"
      and m: "movePoint tiltedROI 1 (mapToParent tiltedROI (Point 1 3)) ControlModifier True
                = Inr roi'"
      and s: "state roi' = (if outOfBounds tiltedROI ns then state tiltedROI else ns)"
      unfolding tilted_localPoints fst_conv snd_conv tilted_scaleRotateSize by blast
    then have a: "angle ns = 90"
      by (simp add: Point_angle_examples py_round_snap_examples)
    have "scaleRotateNewState tiltedROI (handles tiltedROI ! 1)
            (mapToParent tiltedROI (Point 1 3)) ControlModifier = Inr (Some ns)"
      using p by (simp add: proposal_def)
    moreover have "scaleRotateSize tiltedROI (handles tiltedROI ! 1) (Point (1/2) (1/2))
            (snd (localPoints tiltedROI (handles tiltedROI ! 1) (Point (1/2) (1/2))
                    (mapToParent tiltedROI (Point 1 3)))) = Inr (Point 4 2)"
      unfolding tilted_localPoints snd_conv by (rule tilted_scaleRotateSize)
    ultimately have "size' ns = Point 4 2"
      using scaleRotateNewState_size cen by blast
    then show ?thesis using m s a by simp
  qed
  have rf: "\<exists>r. movePoint tiltedROI 2 (mapToParent tiltedROI (Point 2 0)) 0 True = Inr r
          \<and> angle (state r) = -90"
  proof -
    have len: "2 < length (handles tiltedROI)"
      and ty: "htype (handles tiltedROI ! 2) \<in> {Hr, Hrf, Hsr}"
      and cen: "center (handles tiltedROI ! 2) = Some (Point 0 0)"
      and sn: "rotateSnap tiltedROI \<or> held 0 ControlModifier"
      and al: "htype (handles tiltedROI ! 2) = Hsr \<or> rotateAllowed tiltedROI"
      and nsr: "htype (handles tiltedROI ! 2) \<noteq> Hsr"
      by simp_all
    have l0: "Point_length (fst (localPoints tiltedROI (handles tiltedROI ! 2) (Point 0 0)
                (mapToParent tiltedROI (Point 2 0)))) \<noteq> 0"
      and l1: "Point_length (snd (localPoints tiltedROI (handles tiltedROI ! 2) (Point 0 0)
                (mapToParent tiltedROI (Point 2 0)))) \<noteq> 0"
      unfolding tilted_localPoints by simp_all
    from rotate_snap_writes_multiple_of_15 [OF len ty cen sn al l0 l1, of True]
    obtain a ns roi' where "Point_angle (Point 0 2) (Point 2 0) = Some a"
      and "angle ns = py_round ((angle (state tiltedROI) - a) / 15) * 15"
      and "movePoint tiltedROI 2 (mapToParent tiltedROI (Point 2 0)) 0 True = Inr roi'"
      and "state roi' = (if outOfBounds tiltedROI ns then state tiltedROI else ns)"
      unfolding tilted_localPoints fst_conv snd_conv using nsr by blast
    then show ?thesis
      by (simp add: Point_angle_examples py_round_snap_examples)
  qed
  show ?thesis using r sr rf by (simp add: py_round_snap_examples)
qed

end
